theory Spec2Isabelle
  imports Complex_Main "HOL-Library.AList"
begin

section \<open>Shared data: instants, heartbeats, transport outcomes\<close>

text \<open>
  Instants are JavaScript \<^verbatim>\<open>Date\<close> values read as milliseconds since the epoch.
  Every \<^verbatim>\<open>new Date()\<close> and \<^verbatim>\<open>Date.now()\<close> inside one invocation of a handler
  (one heartbeat attempt, one drain, one sweep, one ingestion) is modelled as the same
  reading, passed in as \<open>now\<close>.
\<close>

type_synonym instant = int

text \<open>
  The heartbeat wire record. Only the fields that the control flow of client and server
  reads are kept: \<^verbatim>\<open>store_id\<close>, \<^verbatim>\<open>store_name\<close>, \<^verbatim>\<open>location_info.timezone\<close>,
  \<^verbatim>\<open>timestamp\<close>, \<^verbatim>\<open>is_startup\<close> and the two connection counters of
  \<^verbatim>\<open>application_stats\<close>. A field the JSON object lacks is \<open>None\<close>. The field
  \<open>hb_is_startup\<close> is the truth value of \<^verbatim>\<open>heartbeatData.is_startup === true\<close>.
\<close>

record heartbeat =
  hb_store_id :: "string option"
  hb_store_name :: "string option"
  hb_timezone :: "string option"
  hb_timestamp :: instant
  hb_is_startup :: bool
  hb_consecutive_failures :: nat
  hb_last_successful_connection :: "instant option"

text \<open>
  The outcome of an \<^verbatim>\<open>axios.post\<close>: a resolved response with its status code, or a
  rejection carrying \<^verbatim>\<open>error.code\<close>. A refused connection is rejected with
  \<^verbatim>\<open>ECONNREFUSED\<close>, a connection attempt that the operating system gives up with
  \<^verbatim>\<open>ETIMEDOUT\<close>, the expiry of the request's own \<^verbatim>\<open>timeout\<close> option with
  \<^verbatim>\<open>ECONNABORTED\<close> (the library's default), a 4xx answer with \<^verbatim>\<open>ERR_BAD_REQUEST\<close>.
\<close>

datatype post_result = Resp nat | Throw string

section \<open>The store-side client (StoreHeartbeatClient)\<close>

text \<open>
  A buffered heartbeat. In the durable mode it is a row of the table
  \<^verbatim>\<open>heartbeat_buffer(id, timestamp, data, sent, created_at)\<close>; in the memory fallback it is
  an object \<^verbatim>\<open>{id, timestamp, data}\<close>, for which \<open>b_sent\<close> and \<open>b_created_at\<close> are
  not read. \<open>b_timestamp\<close> is the instant that \<^verbatim>\<open>new Date(item.timestamp).getTime()\<close>
  yields for the stored string. The column \<^verbatim>\<open>data\<close> is a string that \<^verbatim>\<open>JSON.parse\<close>
  rejects (\<open>Unparseable\<close>), a falsy value (\<open>NullData\<close>) or a heartbeat object.
\<close>

datatype row_data = Unparseable | NullData | Payload heartbeat

record buffered =
  b_id :: nat
  b_timestamp :: instant
  b_data :: row_data
  b_sent :: bool
  b_created_at :: instant

text \<open>
  The client object. \<open>localDb\<close> is the table behind the connection when
  \<^verbatim>\<open>initLocalDatabase\<close> succeeded and \<open>None\<close> otherwise; \<open>heartbeatBuffer\<close> is the memory
  array, \<open>None\<close> while it is undefined.
\<close>

record client =
  client_storeId :: string
  client_storeName :: string
  isFirstHeartbeat :: bool
  consecutiveFailures :: nat
  lastSuccessfulConnection :: "instant option"
  localDb :: "buffered list option"
  heartbeatBuffer :: "buffered list option"

text \<open>
  What the surroundings decide during one invocation: the clock, the machine's time
  zone (its name, and how \<^verbatim>\<open>new Date\<close> reads a wall-clock time without zone: \<open>read_local w\<close>
  is the instant at which the local clock shows what a UTC clock shows at \<open>w\<close>), the
  result of the live POST, the result of each
  buffered POST (by row id), whether a statement on the local database throws, and for
  the \<^verbatim>\<open>UPDATE ... SET sent = TRUE\<close> of a row the \<^verbatim>\<open>error.code\<close> it throws with, if it
  throws.
\<close>

record client_env =
  now :: instant
  read_local :: "instant \<Rightarrow> instant"
  tz_name :: string
  post_live :: post_result
  post_buffered :: "nat \<Rightarrow> post_result"
  insert_throws :: bool
  select_throws :: bool
  delete_throws :: bool
  update_throws :: "nat \<Rightarrow> string option"

definition new_client :: "string \<Rightarrow> string \<Rightarrow> buffered list option \<Rightarrow> client" where
  "new_client sid sname db =
     \<lparr> client_storeId = sid, client_storeName = sname, isFirstHeartbeat = True,
       consecutiveFailures = 0, lastSuccessfulConnection = None,
       localDb = db,
       heartbeatBuffer = (case db of None \<Rightarrow> Some [] | Some _ \<Rightarrow> None) \<rparr>"

definition createHeartbeatPayload :: "client_env \<Rightarrow> client \<Rightarrow> heartbeat" where
  "createHeartbeatPayload env c =
     \<lparr> hb_store_id = Some (client_storeId c), hb_store_name = Some (client_storeName c),
       hb_timezone = Some (tz_name env), hb_timestamp = now env,
       hb_is_startup = isFirstHeartbeat c,
       hb_consecutive_failures = consecutiveFailures c,
       hb_last_successful_connection = lastSuccessfulConnection c \<rparr>"

text \<open>
  \<^verbatim>\<open>storeHeartbeatLocally\<close>: an \<^verbatim>\<open>INSERT\<close> in the durable mode (the new id is one
  above the largest id of the table, as \<^verbatim>\<open>AUTO_INCREMENT\<close> gives on a table that never
  shrinks from the top); a push in the memory mode, trimmed to the last 50 entries once
  the array holds more than 100. Any exception is logged and swallowed.

  The timestamp is written as \<^verbatim>\<open>now.toISOString().slice(0, 19).replace("T", " ")\<close>,
  the UTC wall-clock time cut to the second; \<^verbatim>\<open>new Date\<close> reads such a string back as
  local time, with the zone rules in force at that wall-clock time. \<open>mysqlTimestamp\<close> is
  the instant so read back.
\<close>

definition mysqlTimestamp :: "client_env \<Rightarrow> instant" where
  "mysqlTimestamp env = read_local env ((now env div 1000) * 1000)"

definition next_id :: "buffered list \<Rightarrow> nat" where
  "next_id tbl = Suc (fold max (map b_id tbl) 0)"

definition storeHeartbeatLocally :: "client_env \<Rightarrow> heartbeat \<Rightarrow> client \<Rightarrow> client" where
  "storeHeartbeatLocally env payload c =
     (case localDb c of
        Some tbl \<Rightarrow>
          if insert_throws env then c
          else c\<lparr>localDb := Some (tbl @
                 [\<lparr> b_id = next_id tbl, b_timestamp = mysqlTimestamp env,
                    b_data = Payload payload, b_sent = False, b_created_at = now env \<rparr>])\<rparr>
      | None \<Rightarrow>
          let buf = (case heartbeatBuffer c of None \<Rightarrow> [] | Some b \<Rightarrow> b) @
                    [\<lparr> b_id = nat (now env), b_timestamp = mysqlTimestamp env,
                       b_data = Payload payload, b_sent = False, b_created_at = now env \<rparr>]
          in c\<lparr>heartbeatBuffer :=
                 Some (if length buf > 100 then drop (length buf - 50) buf else buf)\<rparr>)"

text \<open>
  The body of the drain loop. \<open>decode\<close> is the parsing and validation at the top of the
  iteration: \<open>None\<close> is a \<^verbatim>\<open>continue\<close> (unparseable data, falsy data, or a falsy
  \<^verbatim>\<open>store_id\<close>, which in JavaScript includes the empty string).
\<close>

definition decode :: "buffered \<Rightarrow> heartbeat option" where
  "decode row =
     (case b_data row of
        Unparseable \<Rightarrow> None
      | NullData \<Rightarrow> None
      | Payload hb \<Rightarrow>
          (if hb_store_id hb = None \<or> hb_store_id hb = Some [] then None else Some hb))"

definition network_code :: "string \<Rightarrow> bool" where
  "network_code code \<longleftrightarrow> code = ''ECONNREFUSED'' \<or> code = ''ETIMEDOUT''"

text \<open>\<^verbatim>\<open>UPDATE heartbeat_buffer SET sent = TRUE WHERE id = ?\<close>\<close>

definition mark_sent :: "nat \<Rightarrow> buffered list \<Rightarrow> buffered list" where
  "mark_sent i tbl = map (\<lambda>r. if b_id r = i then r\<lparr>b_sent := True\<rparr> else r) tbl"

text \<open>\<^verbatim>\<open>findIndex\<close> on the id, then \<^verbatim>\<open>splice(index, 1)\<close>: the first such item goes.\<close>

fun splice_id :: "nat \<Rightarrow> buffered list \<Rightarrow> buffered list" where
  "splice_id i [] = []"
| "splice_id i (r # rs) = (if b_id r = i then rs else r # splice_id i rs)"

text \<open>
  The loop over the peeked batch. The state is the client and the ids posted so far, in
  order. The counters \<^verbatim>\<open>successCount\<close> and \<^verbatim>\<open>failCount\<close> feed only the log and are
  left out. A \<^verbatim>\<open>break\<close> returns the state as it is.
\<close>

fun drain_loop :: "client_env \<Rightarrow> buffered list \<Rightarrow> client \<times> nat list \<Rightarrow> client \<times> nat list" where
  "drain_loop env [] st = st"
| "drain_loop env (row # rows) (c, posted) =
     (case decode row of
        None \<Rightarrow> drain_loop env rows (c, posted)
      | Some hb \<Rightarrow>
          (case post_buffered env (b_id row) of
             Resp status \<Rightarrow>
               if status = 200 then
                 (case localDb c of
                    Some tbl \<Rightarrow>
                      (case update_throws env (b_id row) of
                         None \<Rightarrow>
                           drain_loop env rows
                             (c\<lparr>localDb := Some (mark_sent (b_id row) tbl)\<rparr>,
                              posted @ [b_id row])
                       | Some code \<Rightarrow>
                           if network_code code then (c, posted @ [b_id row])
                           else drain_loop env rows (c, posted @ [b_id row]))
                  | None \<Rightarrow>
                      drain_loop env rows
                        (c\<lparr>heartbeatBuffer :=
                             map_option (splice_id (b_id row)) (heartbeatBuffer c)\<rparr>,
                         posted @ [b_id row]))
               else drain_loop env rows (c, posted @ [b_id row])
           | Throw code \<Rightarrow>
               if network_code code then (c, posted @ [b_id row])
               else drain_loop env rows (c, posted @ [b_id row])))"

text \<open>
  \<^verbatim>\<open>SELECT id, data, timestamp FROM heartbeat_buffer WHERE sent = FALSE ORDER BY id LIMIT 10\<close>
  in the durable mode, \<^verbatim>\<open>heartbeatBuffer.slice(0, 10)\<close> in the memory mode.
\<close>

definition peek_batch :: "client \<Rightarrow> buffered list" where
  "peek_batch c =
     (case localDb c of
        Some tbl \<Rightarrow> take 10 (sort_key b_id (filter (\<lambda>r. \<not> b_sent r) tbl))
      | None \<Rightarrow> (case heartbeatBuffer c of None \<Rightarrow> [] | Some buf \<Rightarrow> take 10 buf))"

definition sendBufferedHeartbeats :: "client_env \<Rightarrow> client \<Rightarrow> client \<times> nat list" where
  "sendBufferedHeartbeats env c =
     (if localDb c \<noteq> None \<and> select_throws env then (c, [])
      else drain_loop env (peek_batch c) (c, []))"

text \<open>
  \<^verbatim>\<open>sendHeartbeat\<close>. The result is the payload handed to \<^verbatim>\<open>axios.post\<close>, the boolean
  the method returns, the client afterwards and the ids the drain posted. In the
  \<^verbatim>\<open>catch\<close> branch the payload that is buffered is built anew, after the failure
  counter has been incremented.
\<close>

definition sendHeartbeat :: "client_env \<Rightarrow> client \<Rightarrow> heartbeat \<times> bool \<times> client \<times> nat list" where
  "sendHeartbeat env c =
     (let payload = createHeartbeatPayload env c in
      case post_live env of
        Resp status \<Rightarrow>
          if status = 200 then
            (let c1 = c\<lparr>consecutiveFailures := 0,
                        lastSuccessfulConnection := Some (now env),
                        isFirstHeartbeat := False\<rparr>;
                 (c2, posted) = sendBufferedHeartbeats env c1
             in (payload, True, c2, posted))
          else
            (let c1 = c\<lparr>consecutiveFailures := Suc (consecutiveFailures c)\<rparr>
             in (payload, False, storeHeartbeatLocally env payload c1, []))
      | Throw code \<Rightarrow>
          (let c1 = c\<lparr>consecutiveFailures := Suc (consecutiveFailures c)\<rparr>
           in (payload, False,
               storeHeartbeatLocally env (createHeartbeatPayload env c1) c1, [])))"

text \<open>
  \<^verbatim>\<open>clearOldBufferedHeartbeats\<close>. Durable mode:
  \<^verbatim>\<open>DELETE ... WHERE created_at < DATE_SUB(NOW(), INTERVAL 24 HOUR)\<close>. Memory mode: keep the
  items with \<^verbatim>\<open>itemTime > Date.now() - 60 * 60 * 1000\<close>.
\<close>

definition clearOldBufferedHeartbeats :: "client_env \<Rightarrow> client \<Rightarrow> client" where
  "clearOldBufferedHeartbeats env c =
     (case localDb c of
        Some tbl \<Rightarrow>
          if delete_throws env then c
          else c\<lparr>localDb :=
                 Some (filter (\<lambda>r. \<not> b_created_at r < now env - 24 * 60 * 60 * 1000) tbl)\<rparr>
      | None \<Rightarrow>
          (case heartbeatBuffer c of
             None \<Rightarrow> c
           | Some buf \<Rightarrow>
               c\<lparr>heartbeatBuffer :=
                   Some (filter (\<lambda>item. b_timestamp item > now env - 60 * 60 * 1000) buf)\<rparr>))"

text \<open>
  A client process: \<^verbatim>\<open>start\<close> sends one heartbeat at once and then one per timer tick.
  \<open>attempts c envs\<close> runs one \<^verbatim>\<open>sendHeartbeat\<close> per environment and lists the payload
  of each attempt.
\<close>

fun attempts :: "client \<Rightarrow> client_env list \<Rightarrow> heartbeat list" where
  "attempts c [] = []"
| "attempts c (env # envs) =
     (case sendHeartbeat env c of (payload, ok, c', posted) \<Rightarrow> payload # attempts c' envs)"

definition delivered :: "client_env \<Rightarrow> bool" where
  "delivered env \<longleftrightarrow> post_live env = Resp 200"

section \<open>The central server (CentralizedMonitoringServer)\<close>

text \<open>
  A key of the in-memory maps is what \<^verbatim>\<open>heartbeatData.store_id\<close> evaluates to: a string,
  or \<open>None\<close> for \<^verbatim>\<open>undefined\<close> (a JavaScript \<^verbatim>\<open>Map\<close> takes that key too).
\<close>

type_synonym key = "string option"

datatype status = Online | Offline | Unknown

datatype alert_kind = Startup | Recovery | OfflineAlert

datatype severity = Low | Medium | High | Critical

datatype db_alert_type = DbOffline | DbSystemWarning | DbCameraFailure | DbTest

text \<open>
  An entry of \<^verbatim>\<open>allStores\<close>. The fields \<^verbatim>\<open>last_seen\<close> (always equal to
  \<^verbatim>\<open>last_heartbeat\<close>), \<^verbatim>\<open>config\<close> (a copy of name and location) and \<^verbatim>\<open>metrics\<close>
  (computed from \<^verbatim>\<open>data\<close>) are not kept.
\<close>

record store =
  st_store_id :: key
  st_store_name :: string
  st_location :: string
  st_status :: status
  st_last_heartbeat :: "instant option"
  st_data :: "heartbeat option"
  st_updated_at :: instant
  st_first_seen :: instant

text \<open>The persistent tables, as far as the server writes and reads them.\<close>

record store_row =
  r_store_id :: string
  r_store_name :: "string option"
  r_last_heartbeat :: "instant option"
  r_status :: status
  r_created_at :: instant
  r_updated_at :: instant

record alert_row =
  ar_store_id :: string
  ar_alert_type :: db_alert_type
  ar_severity :: severity
  ar_timestamp :: instant

record database =
  tbl_stores :: "store_row list"
  tbl_heartbeat_history :: "(string \<times> instant) list"
  tbl_system_stats :: "(string \<times> instant) list"
  tbl_alerts :: "alert_row list"

text \<open>A call of \<^verbatim>\<open>sendAlert\<close>, and a message handed to the mail transporter.\<close>

record alert_call =
  ac_store :: key
  ac_kind :: alert_kind
  ac_severity :: severity
  ac_time :: instant

record mail =
  m_to :: "string list"
  m_store :: key
  m_kind :: alert_kind

text \<open>
  The server object with the database it talks to. \<^verbatim>\<open>allStores\<close> is a \<^verbatim>\<open>Map\<close>,
  iterated in insertion order: an association list, updated in place or extended at
  the end. \<open>alert_calls\<close> is not a field of the class: it records every invocation of
  \<^verbatim>\<open>sendAlert\<close>, in order. \<open>outbox\<close> holds the messages for which
  \<^verbatim>\<open>transporter.sendMail\<close> was scheduled.
\<close>

record server =
  alertThresholdMinutes :: int
  offlineAlertCooldownMinutes :: int
  allStores :: "(key \<times> store) list"
  storeEmailConfig :: "string \<rightharpoonup> string list"
  lastOfflineAlerts :: "key \<rightharpoonup> instant"
  lastRecoveryAlerts :: "key \<rightharpoonup> instant"
  lastStartupAlerts :: "key \<rightharpoonup> instant"
  emailEnabled :: bool
  db :: database
  alert_calls :: "alert_call list"
  outbox :: "mail list"

text \<open>
  What the surroundings decide during one invocation on the server: the clock and, for
  each kind of database statement, whether it throws.
\<close>

record server_env =
  s_now :: instant
  save_throws :: bool
  alert_insert_throws :: bool
  status_update_throws :: bool
  select_stores_throws :: bool

text \<open>
  \<^verbatim>\<open>(t1 - t0) / (1000 * 60)\<close>: the difference of two instants in minutes. The quotient
  is taken exactly.
\<close>

definition minutesBetween :: "instant \<Rightarrow> instant \<Rightarrow> real" where
  "minutesBetween t0 t1 = real_of_int (t1 - t0) / (1000 * 60)"

text \<open>\<^verbatim>\<open>`Store ${storeId}`\<close>\<close>

definition store_label :: "key \<Rightarrow> string" where
  "store_label k = ''Store '' @ (case k of None \<Rightarrow> ''undefined'' | Some sid \<Rightarrow> sid)"

text \<open>\<^verbatim>\<open>x || d\<close> on an optional string: a missing or empty \<open>x\<close> gives \<open>d\<close>.\<close>

definition or_default :: "string option \<Rightarrow> string \<Rightarrow> string" where
  "or_default x d = (case x of None \<Rightarrow> d | Some v \<Rightarrow> if v = [] then d else v)"

text \<open>\<^verbatim>\<open>this.storeEmailConfig.get(key) || []\<close>\<close>

definition config_get :: "server \<Rightarrow> key \<Rightarrow> string list" where
  "config_get s k =
     (case k of
        None \<Rightarrow> []
      | Some sid \<Rightarrow> (case storeEmailConfig s sid of None \<Rightarrow> [] | Some es \<Rightarrow> es))"

definition getEmailRecipients :: "server \<Rightarrow> key \<Rightarrow> string list" where
  "getEmailRecipients s storeId =
     (let storeEmails = config_get s storeId;
          defaultEmails = config_get s (Some ''default'');
          allEmails = (if length storeEmails > 0 then storeEmails else defaultEmails)
      in allEmails)"

definition alertTypeMapping :: "alert_kind \<Rightarrow> db_alert_type" where
  "alertTypeMapping k = (case k of Startup \<Rightarrow> DbTest | Recovery \<Rightarrow> DbTest | OfflineAlert \<Rightarrow> DbOffline)"

text \<open>
  \<^verbatim>\<open>sendAlert\<close>. The \<^verbatim>\<open>INSERT INTO alerts\<close> comes first. It throws when the
  surroundings make it throw, when the store id is \<^verbatim>\<open>undefined\<close> (the driver rejects
  such a bind parameter) and when the store has no row in \<^verbatim>\<open>stores\<close> (the table
  \<^verbatim>\<open>alerts\<close> declares \<^verbatim>\<open>FOREIGN KEY (store_id) REFERENCES stores(store_id)\<close>); then the
  outer \<^verbatim>\<open>catch\<close> logs and nothing else happens. After the insert the method returns
  early when mail is disabled or when there is no recipient; otherwise the message is
  scheduled. Building subject and body is taken to succeed.
\<close>

definition sendAlert :: "server_env \<Rightarrow> key \<Rightarrow> alert_kind \<Rightarrow> severity \<Rightarrow> server \<Rightarrow> server" where
  "sendAlert env storeId alertType sev s =
     (let s0 = s\<lparr>alert_calls := alert_calls s @
                  [\<lparr> ac_store = storeId, ac_kind = alertType, ac_severity = sev,
                     ac_time = s_now env \<rparr>]\<rparr>
      in case storeId of
           None \<Rightarrow> s0
         | Some sid \<Rightarrow>
             if alert_insert_throws env \<or> sid \<notin> set (map r_store_id (tbl_stores (db s0)))
             then s0
             else
               (let s1 = s0\<lparr>db := (db s0)\<lparr>tbl_alerts := tbl_alerts (db s0) @
                               [\<lparr> ar_store_id = sid, ar_alert_type = alertTypeMapping alertType,
                                  ar_severity = sev, ar_timestamp = s_now env \<rparr>]\<rparr>\<rparr>
                in if \<not> emailEnabled s1 then s1
                   else
                     (let recipients = getEmailRecipients s1 storeId
                      in if length recipients = 0 then s1
                         else s1\<lparr>outbox := outbox s1 @
                                  [\<lparr> m_to = recipients, m_store = storeId,
                                     m_kind = alertType \<rparr>]\<rparr>)))"

text \<open>
  \<^verbatim>\<open>saveHeartbeatToDatabase\<close>: one transaction with the upsert of the store row, the
  insert into \<^verbatim>\<open>heartbeat_history\<close> and the insert into \<^verbatim>\<open>system_stats\<close>. When any
  step throws (as the first one does on an \<^verbatim>\<open>undefined\<close> store id, which the driver
  rejects as a bind parameter), the transaction is rolled back and the error is logged;
  nothing is rethrown.
\<close>

fun upsert_store :: "string \<Rightarrow> string \<Rightarrow> instant \<Rightarrow> store_row list \<Rightarrow> store_row list" where
  "upsert_store sid name t [] =
     [\<lparr> r_store_id = sid, r_store_name = Some name, r_last_heartbeat = Some t,
        r_status = Online, r_created_at = t, r_updated_at = t \<rparr>]"
| "upsert_store sid name t (r # rs) =
     (if r_store_id r = sid
      then r\<lparr>r_store_name := Some name, r_last_heartbeat := Some t, r_status := Online,
               r_updated_at := t\<rparr> # rs
      else r # upsert_store sid name t rs)"

definition saveHeartbeatToDatabase ::
  "server_env \<Rightarrow> key \<Rightarrow> heartbeat \<Rightarrow> instant \<Rightarrow> server \<Rightarrow> server" where
  "saveHeartbeatToDatabase env storeId hb t s =
     (case storeId of
        None \<Rightarrow> s
      | Some sid \<Rightarrow>
          if save_throws env then s
          else s\<lparr>db := (db s)
                 \<lparr>tbl_stores :=
                    upsert_store sid (or_default (hb_store_name hb) (store_label storeId)) t
                      (tbl_stores (db s)),
                  tbl_heartbeat_history := tbl_heartbeat_history (db s) @ [(sid, t)],
                  tbl_system_stats := tbl_system_stats (db s) @ [(sid, t)]\<rparr>\<rparr>)"

definition updateStoreStatusInDB ::
  "server_env \<Rightarrow> key \<Rightarrow> status \<Rightarrow> instant \<Rightarrow> server \<Rightarrow> server" where
  "updateStoreStatusInDB env storeId st t s =
     (case storeId of
        None \<Rightarrow> s
      | Some sid \<Rightarrow>
          if status_update_throws env then s
          else s\<lparr>db := (db s)\<lparr>tbl_stores :=
                   map (\<lambda>r. if r_store_id r = sid then r\<lparr>r_status := st, r_updated_at := t\<rparr>
                             else r) (tbl_stores (db s))\<rparr>\<rparr>)"

text \<open>
  The block "Handle alerts" at the end of \<^verbatim>\<open>processHeartbeat\<close>, on the state after
  the save: a first heartbeat always fires a startup alert; otherwise a flagged
  heartbeat fires one when more than 10 minutes have passed since the last startup
  alert; otherwise a heartbeat of a store that was offline fires a recovery alert when
  more than 5 minutes have passed since the last recovery alert.
\<close>

definition heartbeat_alerts ::
  "server_env \<Rightarrow> key \<Rightarrow> instant \<Rightarrow> bool \<Rightarrow> bool \<Rightarrow> bool \<Rightarrow> server \<Rightarrow> server" where
  "heartbeat_alerts env storeId timestamp isFirst isStartup wasOffline s2 =
     (if isFirst then
        (let a = sendAlert env storeId Startup Low s2
         in a\<lparr>lastStartupAlerts := (lastStartupAlerts a)(storeId \<mapsto> timestamp)\<rparr>)
      else if isStartup then
        (let lastStartup = lastStartupAlerts s2 storeId;
             shouldSendStartup =
               (case lastStartup of
                  None \<Rightarrow> True
                | Some t \<Rightarrow> minutesBetween t timestamp > 10)
         in if shouldSendStartup then
              (let a = sendAlert env storeId Startup Low s2
               in a\<lparr>lastStartupAlerts := (lastStartupAlerts a)(storeId \<mapsto> timestamp)\<rparr>)
            else s2)
      else if wasOffline then
        (let lastRecovery = lastRecoveryAlerts s2 storeId;
             shouldSendRecovery =
               (case lastRecovery of
                  None \<Rightarrow> True
                | Some t \<Rightarrow> minutesBetween t timestamp > 5)
         in if shouldSendRecovery then
              (let a = sendAlert env storeId Recovery Medium s2
               in a\<lparr>lastRecoveryAlerts := (lastRecoveryAlerts a)(storeId \<mapsto> timestamp)\<rparr>)
            else s2)
      else s2)"

text \<open>
  \<^verbatim>\<open>processHeartbeat\<close> on a decoded body. The result is the value the method returns
  (here the field \<^verbatim>\<open>total_stores_monitored\<close>) and the server afterwards.
\<close>

definition processHeartbeat :: "server_env \<Rightarrow> heartbeat \<Rightarrow> server \<Rightarrow> nat \<times> server" where
  "processHeartbeat env heartbeatData s =
     (let storeId = hb_store_id heartbeatData;
          timestamp = s_now env;
          storeName = or_default (hb_store_name heartbeatData) (store_label storeId);
          storeLocation = or_default (hb_timezone heartbeatData) ''Unknown'';
          previousState = map_of (allStores s) storeId;
          wasOffline = (case previousState of None \<Rightarrow> False | Some p \<Rightarrow> st_status p = Offline);
          isFirst = (previousState = None);
          isStartup = hb_is_startup heartbeatData;
          storeState =
            \<lparr> st_store_id = storeId, st_store_name = storeName, st_location = storeLocation,
              st_status = Online, st_last_heartbeat = Some timestamp,
              st_data = Some heartbeatData, st_updated_at = timestamp,
              st_first_seen =
                (case previousState of None \<Rightarrow> timestamp | Some p \<Rightarrow> st_first_seen p) \<rparr>;
          s1 = s\<lparr>allStores := AList.update storeId storeState (allStores s)\<rparr>;
          s2 = saveHeartbeatToDatabase env storeId heartbeatData timestamp s1;
          s3 = heartbeat_alerts env storeId timestamp isFirst isStartup wasOffline s2
      in (length (allStores s3), s3))"

text \<open>
  The route handlers \<^verbatim>\<open>POST /heartbeat\<close> and \<^verbatim>\<open>POST /heartbeat/buffered\<close>. A body
  that is not an object (\<open>None\<close>) makes the first property access of
  \<^verbatim>\<open>processHeartbeat\<close> throw, and the handler's \<^verbatim>\<open>catch\<close> answers 500. Otherwise the
  handler answers with \<^verbatim>\<open>res.json\<close>, that is with status 200; the spread of the result
  over \<^verbatim>\<open>{status: "received", ...}\<close> leaves \<^verbatim>\<open>status: "success"\<close> in the body.
\<close>

record response =
  http_status :: nat
  body_status :: "string option"
  body_buffered :: bool
  body_total_stores_monitored :: "nat option"

definition route_heartbeat :: "bool \<Rightarrow> server_env \<Rightarrow> heartbeat option \<Rightarrow> server \<Rightarrow> response \<times> server" where
  "route_heartbeat buffered_route env body s =
     (case body of
        None \<Rightarrow>
          (\<lparr> http_status = 500, body_status = None, body_buffered = False,
              body_total_stores_monitored = None \<rparr>, s)
      | Some heartbeatData \<Rightarrow>
          (case processHeartbeat env heartbeatData s of
             (n, s') \<Rightarrow>
               (\<lparr> http_status = 200, body_status = Some ''success'',
                   body_buffered = buffered_route,
                   body_total_stores_monitored = Some n \<rparr>, s')))"

definition post_heartbeat :: "server_env \<Rightarrow> heartbeat option \<Rightarrow> server \<Rightarrow> response \<times> server" where
  "post_heartbeat = route_heartbeat False"

definition post_heartbeat_buffered :: "server_env \<Rightarrow> heartbeat option \<Rightarrow> server \<Rightarrow> response \<times> server" where
  "post_heartbeat_buffered = route_heartbeat True"

text \<open>
  A request as it reaches the server. The middleware \<^verbatim>\<open>express.json\<close> is installed
  before the routes (\<^verbatim>\<open>app.use(express.json({ limit: "10mb" }))\<close>): body text that is
  not JSON makes it raise, Express answers that with status 400 and no route runs;
  otherwise the route is called with the parsed body.
\<close>

datatype request = BadJson | JsonBody "heartbeat option"

definition ingest :: "bool \<Rightarrow> server_env \<Rightarrow> request \<Rightarrow> server \<Rightarrow> response \<times> server" where
  "ingest buffered_route env req s =
     (case req of
        BadJson \<Rightarrow>
          (\<lparr> http_status = 400, body_status = None, body_buffered = False,
              body_total_stores_monitored = None \<rparr>, s)
      | JsonBody body \<Rightarrow> route_heartbeat buffered_route env body s)"

text \<open>
  \<^verbatim>\<open>canSendOfflineAlert\<close>: answers and, when the answer is yes, stamps
  \<^verbatim>\<open>lastOfflineAlerts\<close>.
\<close>

definition canSendOfflineAlert :: "server_env \<Rightarrow> key \<Rightarrow> server \<Rightarrow> bool \<times> server" where
  "canSendOfflineAlert env storeId s =
     (case lastOfflineAlerts s storeId of
        None \<Rightarrow> (True, s\<lparr>lastOfflineAlerts := (lastOfflineAlerts s)(storeId \<mapsto> s_now env)\<rparr>)
      | Some lastAlert \<Rightarrow>
          if minutesBetween lastAlert (s_now env) \<ge> real_of_int (offlineAlertCooldownMinutes s)
          then (True, s\<lparr>lastOfflineAlerts := (lastOfflineAlerts s)(storeId \<mapsto> s_now env)\<rparr>)
          else (False, s))"

text \<open>
  One iteration of the loop of \<^verbatim>\<open>performHealthCheck\<close>, for the entry under
  \<open>storeId\<close>.
\<close>

definition checkStore :: "server_env \<Rightarrow> key \<Rightarrow> server \<Rightarrow> server" where
  "checkStore env storeId s =
     (case map_of (allStores s) storeId of
        None \<Rightarrow> s
      | Some store \<Rightarrow>
          (case st_last_heartbeat store of
             None \<Rightarrow> s
           | Some lastHb \<Rightarrow>
               (let timestamp = s_now env;
                    minutesSinceLastHeartbeat = minutesBetween lastHb timestamp;
                    isOffline =
                      (minutesSinceLastHeartbeat > real_of_int (alertThresholdMinutes s))
                in if isOffline then
                     (if st_status store \<noteq> Offline then
                        (let s1 = s\<lparr>allStores :=
                                     AList.update storeId (store\<lparr>st_status := Offline\<rparr>)
                                       (allStores s)\<rparr>;
                             s2 = updateStoreStatusInDB env storeId Offline timestamp s1
                         in sendAlert env storeId OfflineAlert Critical s2)
                      else
                        (case canSendOfflineAlert env storeId s of
                           (ok, s1) \<Rightarrow>
                             if ok then sendAlert env storeId OfflineAlert Critical s1 else s1))
                   else s)))"

text \<open>
  Hydration. \<^verbatim>\<open>syncWithDatabase\<close> adds the rows whose id is not yet a key of
  \<^verbatim>\<open>allStores\<close>; \<^verbatim>\<open>loadExistingStoresFromDB\<close>, run from the constructor, sets an
  entry for every row. Both copy the row's \<^verbatim>\<open>status\<close> and \<^verbatim>\<open>last_heartbeat\<close>. A
  failing \<^verbatim>\<open>SELECT\<close> is logged and leaves the memory as it is.
\<close>

definition hydrate_sync :: "instant \<Rightarrow> store_row \<Rightarrow> store" where
  "hydrate_sync timestamp dbStore =
     \<lparr> st_store_id = Some (r_store_id dbStore),
       st_store_name = or_default (r_store_name dbStore) (store_label (Some (r_store_id dbStore))),
       st_location = ''Unknown'',
       st_status = r_status dbStore,
       st_last_heartbeat = r_last_heartbeat dbStore,
       st_data = None,
       st_updated_at = timestamp,
       st_first_seen =
         (case r_last_heartbeat dbStore of None \<Rightarrow> timestamp | Some t \<Rightarrow> t) \<rparr>"

definition hydrate_load :: "store_row \<Rightarrow> store" where
  "hydrate_load row =
     \<lparr> st_store_id = Some (r_store_id row),
       st_store_name = or_default (r_store_name row) (store_label (Some (r_store_id row))),
       st_location = ''Unknown'',
       st_status = r_status row,
       st_last_heartbeat = r_last_heartbeat row,
       st_data = None,
       st_updated_at = r_updated_at row,
       st_first_seen = r_created_at row \<rparr>"

definition sync_row :: "instant \<Rightarrow> store_row \<Rightarrow> server \<Rightarrow> server" where
  "sync_row timestamp dbStore s =
     (if map_of (allStores s) (Some (r_store_id dbStore)) = None
      then s\<lparr>allStores := AList.update (Some (r_store_id dbStore))
                            (hydrate_sync timestamp dbStore) (allStores s)\<rparr>
      else s)"

definition syncWithDatabase :: "server_env \<Rightarrow> instant \<Rightarrow> server \<Rightarrow> server" where
  "syncWithDatabase env timestamp s =
     (if select_stores_throws env then s
      else fold (sync_row timestamp) (tbl_stores (db s)) s)"

definition load_row :: "store_row \<Rightarrow> server \<Rightarrow> server" where
  "load_row row s =
     s\<lparr>allStores := AList.update (Some (r_store_id row)) (hydrate_load row) (allStores s)\<rparr>"

definition loadExistingStoresFromDB :: "server_env \<Rightarrow> server \<Rightarrow> server" where
  "loadExistingStoresFromDB env s =
     (if select_stores_throws env then s
      else fold load_row (tbl_stores (db s)) s)"

text \<open>
  \<^verbatim>\<open>performHealthCheck\<close>: the loop over the entries of \<^verbatim>\<open>allStores\<close> in insertion
  order, then the synchronisation with the database.
\<close>

definition performHealthCheck :: "server_env \<Rightarrow> server \<Rightarrow> server" where
  "performHealthCheck env s =
     syncWithDatabase env (s_now env) (fold (checkStore env) (map fst (allStores s)) s)"

text \<open>The server as its constructor leaves it, before any store is known.\<close>

definition new_server :: "(string \<rightharpoonup> string list) \<Rightarrow> bool \<Rightarrow> database \<Rightarrow> server" where
  "new_server emails enabled d =
     \<lparr> alertThresholdMinutes = 5, offlineAlertCooldownMinutes = 5, allStores = [],
       storeEmailConfig = emails, lastOfflineAlerts = Map.empty,
       lastRecoveryAlerts = Map.empty, lastStartupAlerts = Map.empty,
       emailEnabled = enabled, db = d, alert_calls = [], outbox = [] \<rparr>"

definition empty_db :: database where
  "empty_db = \<lparr> tbl_stores = [], tbl_heartbeat_history = [], tbl_system_stats = [],
                tbl_alerts = [] \<rparr>"

text \<open>
  The in-memory state of the server: the liveness registry and the three cooldown
  tables.
\<close>

definition registry ::
  "server \<Rightarrow> (key \<times> store) list \<times> (key \<rightharpoonup> instant) \<times> (key \<rightharpoonup> instant) \<times> (key \<rightharpoonup> instant)" where
  "registry s = (allStores s, lastOfflineAlerts s, lastRecoveryAlerts s, lastStartupAlerts s)"

text \<open>The calls of \<^verbatim>\<open>sendAlert\<close> made for one store, in order.\<close>

definition calls_for :: "key \<Rightarrow> server \<Rightarrow> alert_call list" where
  "calls_for k s = filter (\<lambda>a. ac_store a = k) (alert_calls s)"

text \<open>
  Two predicates on a buffered entry, used to state what a drain does: the POST of the
  entry is rejected with the code \<^verbatim>\<open>ECONNREFUSED\<close> or the code \<^verbatim>\<open>ETIMEDOUT\<close>, and the
  POST of the entry is answered with status 200. An entry that fails the validation at
  the top of the loop body is never posted and satisfies neither.
\<close>

definition network_failure :: "client_env \<Rightarrow> buffered \<Rightarrow> bool" where
  "network_failure env r \<longleftrightarrow>
     decode r \<noteq> None \<and>
     (post_buffered env (b_id r) = Throw ''ECONNREFUSED'' \<or>
      post_buffered env (b_id r) = Throw ''ETIMEDOUT'')"

definition acknowledged :: "client_env \<Rightarrow> buffered \<Rightarrow> bool" where
  "acknowledged env r \<longleftrightarrow> decode r \<noteq> None \<and> post_buffered env (b_id r) = Resp 200"

text \<open>
  The entries of a batch that a drain gets to: those before the first network-class
  failure, and that failing entry itself.
\<close>

definition reached :: "client_env \<Rightarrow> buffered list \<Rightarrow> buffered list" where
  "reached env batch =
     takeWhile (\<lambda>r. \<not> network_failure env r) batch @
     take 1 (dropWhile (\<lambda>r. \<not> network_failure env r) batch)"

definition delivered_ids :: "client_env \<Rightarrow> buffered list \<Rightarrow> nat set" where
  "delivered_ids env batch =
     b_id ` {q \<in> set (takeWhile (\<lambda>r. \<not> network_failure env r) batch). acknowledged env q}"

section \<open>Concrete scenarios\<close>

text \<open>
  A client environment in which only the outcome of the live POST varies: buffered
  POSTs are answered 200 and the local database works.
\<close>

definition attempt_env :: "post_result \<Rightarrow> client_env" where
  "attempt_env r =
     \<lparr> now = 0, read_local = (\<lambda>w. w), tz_name = ''UTC'', post_live = r,
       post_buffered = (\<lambda>_. Resp 200),
       insert_throws = False, select_throws = False, delete_throws = False,
       update_throws = (\<lambda>_. None) \<rparr>"

text \<open>
  A server that knows one store, \<open>A\<close>, online, last heard of at instant 0, in memory
  and in the database, with the default threshold and cooldown of five minutes; and a sweep or ingestion at instant
  \<open>t\<close> during which no database statement fails.
\<close>

definition store_A :: store where
  "store_A =
     \<lparr> st_store_id = Some ''A'', st_store_name = ''Store A'', st_location = ''Unknown'',
       st_status = Online, st_last_heartbeat = Some 0, st_data = None,
       st_updated_at = 0, st_first_seen = 0 \<rparr>"

definition row_A :: store_row where
  "row_A =
     \<lparr> r_store_id = ''A'', r_store_name = Some ''Store A'', r_last_heartbeat = Some 0,
       r_status = Online, r_created_at = 0, r_updated_at = 0 \<rparr>"

definition srv_A :: server where
  "srv_A =
     (new_server Map.empty False (empty_db\<lparr>tbl_stores := [row_A]\<rparr>))
       \<lparr>allStores := [(Some ''A'', store_A)]\<rparr>"

definition env_at :: "instant \<Rightarrow> server_env" where
  "env_at t =
     \<lparr> s_now = t, save_throws = False, alert_insert_throws = False,
       status_update_throws = False, select_stores_throws = False \<rparr>"

lemmas scenario_defs =
  performHealthCheck_def checkStore_def srv_A_def store_A_def row_A_def new_server_def env_at_def
  Let_def syncWithDatabase_def empty_db_def calls_for_def sendAlert_def
  updateStoreStatusInDB_def canSendOfflineAlert_def minutesBetween_def alertTypeMapping_def
  sync_row_def hydrate_sync_def

text \<open>
  A freshly started server whose database holds one row, for store \<open>B\<close>, persisted as
  offline with its last heartbeat at instant 0; nothing is in memory yet.
\<close>

definition row_B :: store_row where
  "row_B =
     \<lparr> r_store_id = ''B'', r_store_name = Some ''Store B'', r_last_heartbeat = Some 0,
       r_status = Offline, r_created_at = 0, r_updated_at = 0 \<rparr>"

definition srv_B :: server where
  "srv_B = new_server Map.empty False (empty_db\<lparr>tbl_stores := [row_B]\<rparr>)"

text \<open>
  The same server after a sweep has marked \<open>A\<close> offline, and two heartbeats of \<open>A\<close>:
  one carrying the startup flag and one without a \<^verbatim>\<open>store_id\<close>.
\<close>

definition srv_A_offline :: server where
  "srv_A_offline = srv_A\<lparr>allStores := [(Some ''A'', store_A\<lparr>st_status := Offline\<rparr>)]\<rparr>"

definition hb_A_startup :: heartbeat where
  "hb_A_startup =
     \<lparr> hb_store_id = Some ''A'', hb_store_name = Some ''Store A'', hb_timezone = None,
       hb_timestamp = 900000, hb_is_startup = True, hb_consecutive_failures = 0,
       hb_last_successful_connection = None \<rparr>"

definition hb_no_id :: heartbeat where
  "hb_no_id =
     \<lparr> hb_store_id = None, hb_store_name = Some ''Store A'', hb_timezone = None,
       hb_timestamp = 900000, hb_is_startup = False, hb_consecutive_failures = 0,
       hb_last_successful_connection = None \<rparr>"

text \<open>
  A client in the durable mode with six buffered rows: row 2 holds text that does not
  parse, the others hold a heartbeat of store \<open>A\<close>. During the drain the server answers
  200 except for row 3 (rejected with a 4xx, which axios reports as
  \<^verbatim>\<open>ERR_BAD_REQUEST\<close>) and row 5 (connection refused).
\<close>

definition hb_A :: heartbeat where
  "hb_A =
     \<lparr> hb_store_id = Some ''A'', hb_store_name = Some ''Store A'', hb_timezone = None,
       hb_timestamp = 0, hb_is_startup = False, hb_consecutive_failures = 1,
       hb_last_successful_connection = None \<rparr>"

definition buf_row :: "nat \<Rightarrow> row_data \<Rightarrow> instant \<Rightarrow> buffered" where
  "buf_row i d t =
     \<lparr> b_id = i, b_timestamp = t, b_data = d, b_sent = False, b_created_at = t \<rparr>"

definition six_rows :: "buffered list" where
  "six_rows =
     [buf_row 1 (Payload hb_A) 0, buf_row 2 Unparseable 0, buf_row 3 (Payload hb_A) 0,
      buf_row 4 (Payload hb_A) 0, buf_row 5 (Payload hb_A) 0, buf_row 6 (Payload hb_A) 0]"

definition client_db :: client where
  "client_db = (new_client ''A'' ''Store A'' (Some six_rows))\<lparr>isFirstHeartbeat := False\<rparr>"

definition drain_env :: client_env where
  "drain_env =
     \<lparr> now = 1000, read_local = (\<lambda>w. w), tz_name = ''UTC'', post_live = Resp 200,
       post_buffered =
         (\<lambda>i. if i = 3 then Throw ''ERR_BAD_REQUEST''
              else if i = 5 then Throw ''ECONNREFUSED'' else Resp 200),
       insert_throws = False, select_throws = False, delete_throws = False,
       update_throws = (\<lambda>_. None) \<rparr>"

text \<open>
  A client in the memory mode, on a machine whose local time is UTC, that could not
  deliver its heartbeat at instant 0 and buffered it; and a cleanup at instant \<open>t\<close>.
\<close>

definition client_mem :: client where
  "client_mem =
     storeHeartbeatLocally (attempt_env (Throw ''ECONNREFUSED'')) hb_A
       (new_client ''A'' ''Store A'' None)"

definition gc_env :: "instant \<Rightarrow> client_env" where
  "gc_env t =
     \<lparr> now = t, read_local = (\<lambda>w. w), tz_name = ''UTC'', post_live = Resp 200,
       post_buffered = (\<lambda>_. Resp 200),
       insert_throws = False, select_throws = False, delete_throws = False,
       update_throws = (\<lambda>_. None) \<rparr>"





text \<open>
  A server with mail enabled that knows the stores \<open>A\<close>, \<open>B\<close> and \<open>C\<close> in its database:
  \<open>A\<close> has a recipient of its own, \<open>B\<close> has an empty list, \<open>C\<close> has no entry, and there
  is a default recipient.
\<close>

definition store_row_of :: "string \<Rightarrow> store_row" where
  "store_row_of sid =
     \<lparr> r_store_id = sid, r_store_name = None, r_last_heartbeat = Some 0,
       r_status = Online, r_created_at = 0, r_updated_at = 0 \<rparr>"

definition srv_mail :: server where
  "srv_mail =
     new_server
       (Map.empty(''A'' \<mapsto> [''a@example.org''], ''B'' \<mapsto> [],
                  ''default'' \<mapsto> [''ops@example.org'']))
       True
       (empty_db\<lparr>tbl_stores := [store_row_of ''A'', store_row_of ''B'', store_row_of ''C'']\<rparr>)"

text \<open>
  A client in the memory mode holding three buffered heartbeats, the second of which
  lacks \<^verbatim>\<open>store_id\<close>.
\<close>

definition client_mem3 :: client where
  "client_mem3 =
     (new_client ''A'' ''Store A'' None)
       \<lparr>heartbeatBuffer :=
          Some [buf_row 1 (Payload hb_A) 0, buf_row 2 (Payload hb_no_id) 0,
                buf_row 3 (Payload hb_A) 0]\<rparr>"

section \<open>Basic facts about the server operations\<close>

lemma minutes_gt: "(minutesBetween t0 t1 > real_of_int m) = (t1 - t0 > m * 60000)"
proof -
  have "(real_of_int (t1 - t0) / 60000 > real_of_int m) =
        (real_of_int (m * 60000) < real_of_int (t1 - t0))"
    by (simp add: field_simps)
  also have "\<dots> = (m * 60000 < t1 - t0)"
    by (simp only: of_int_less_iff)
  finally show ?thesis by (simp add: minutesBetween_def)
qed

lemma minutes_ge: "(minutesBetween t0 t1 \<ge> real_of_int m) = (t1 - t0 \<ge> m * 60000)"
proof -
  have "(real_of_int (t1 - t0) / 60000 \<ge> real_of_int m) =
        (real_of_int (m * 60000) \<le> real_of_int (t1 - t0))"
    by (simp add: field_simps)
  also have "\<dots> = (m * 60000 \<le> t1 - t0)"
    by (simp only: of_int_le_iff)
  finally show ?thesis by (simp add: minutesBetween_def)
qed

lemma minutes_gt_numeral: "(minutesBetween t0 t1 > numeral m) = (t1 - t0 > numeral m * 60000)"
  using minutes_gt[of "numeral m" t0 t1] by simp

lemma sendAlert_fields [simp]:
  "allStores (sendAlert env k kind sev s) = allStores s"
  "alertThresholdMinutes (sendAlert env k kind sev s) = alertThresholdMinutes s"
  "offlineAlertCooldownMinutes (sendAlert env k kind sev s) = offlineAlertCooldownMinutes s"
  "lastOfflineAlerts (sendAlert env k kind sev s) = lastOfflineAlerts s"
  "lastRecoveryAlerts (sendAlert env k kind sev s) = lastRecoveryAlerts s"
  "lastStartupAlerts (sendAlert env k kind sev s) = lastStartupAlerts s"
  "storeEmailConfig (sendAlert env k kind sev s) = storeEmailConfig s"
  "emailEnabled (sendAlert env k kind sev s) = emailEnabled s"
  "tbl_stores (db (sendAlert env k kind sev s)) = tbl_stores (db s)"
  by (simp_all add: sendAlert_def Let_def split: option.splits)

lemma sendAlert_calls [simp]:
  "alert_calls (sendAlert env k kind sev s) =
     alert_calls s @
       [\<lparr> ac_store = k, ac_kind = kind, ac_severity = sev, ac_time = s_now env \<rparr>]"
  by (simp add: sendAlert_def Let_def split: option.splits)

lemma updateStoreStatusInDB_fields [simp]:
  "allStores (updateStoreStatusInDB env k st t s) = allStores s"
  "alertThresholdMinutes (updateStoreStatusInDB env k st t s) = alertThresholdMinutes s"
  "offlineAlertCooldownMinutes (updateStoreStatusInDB env k st t s) =
     offlineAlertCooldownMinutes s"
  "lastOfflineAlerts (updateStoreStatusInDB env k st t s) = lastOfflineAlerts s"
  "alert_calls (updateStoreStatusInDB env k st t s) = alert_calls s"
  "outbox (updateStoreStatusInDB env k st t s) = outbox s"
  "tbl_alerts (db (updateStoreStatusInDB env k st t s)) = tbl_alerts (db s)"
  by (simp_all add: updateStoreStatusInDB_def split: option.splits)

lemma canSendOfflineAlert_fields [simp]:
  "allStores (snd (canSendOfflineAlert env k s)) = allStores s"
  "alertThresholdMinutes (snd (canSendOfflineAlert env k s)) = alertThresholdMinutes s"
  "alert_calls (snd (canSendOfflineAlert env k s)) = alert_calls s"
  "db (snd (canSendOfflineAlert env k s)) = db s"
  by (simp_all add: canSendOfflineAlert_def split: option.splits)

lemma update_keys_present:
  "map_of al k = Some v \<Longrightarrow> map fst (AList.update k v' al) = map fst al"
  by (simp add: update_keys map_of_eq_None_iff[symmetric] del: map_of_eq_None_iff)

lemma checkStore_other:
  assumes "k \<noteq> k'"
  shows "map_of (allStores (checkStore env k' s)) k = map_of (allStores s) k"
    and "calls_for k (checkStore env k' s) = calls_for k s"
  using assms
  by (simp_all add: checkStore_def calls_for_def Let_def update_conv' split_beta
      split: option.splits)

lemma checkStore_fields [simp]:
  "alertThresholdMinutes (checkStore env k' s) = alertThresholdMinutes s"
  "map fst (allStores (checkStore env k' s)) = map fst (allStores s)"
  by (simp_all add: checkStore_def Let_def split_beta update_keys_present split: option.splits)

lemma fold_checkStore_other:
  "k \<notin> set ks \<Longrightarrow>
   map_of (allStores (fold (checkStore env) ks s)) k = map_of (allStores s) k \<and>
   calls_for k (fold (checkStore env) ks s) = calls_for k s \<and>
   alertThresholdMinutes (fold (checkStore env) ks s) = alertThresholdMinutes s"
  by (induction ks arbitrary: s) (simp_all add: checkStore_other)

lemma checkStore_first_offline:
  assumes "map_of (allStores s) k = Some st" "st_last_heartbeat st = Some t"
    "st_status st \<noteq> Offline"
  shows "map_of (allStores (checkStore env k s)) k =
           (if s_now env - t > alertThresholdMinutes s * 60000
            then Some (st\<lparr>st_status := Offline\<rparr>) else Some st)"
    and "calls_for k (checkStore env k s) =
           calls_for k s @
             (if s_now env - t > alertThresholdMinutes s * 60000
              then [\<lparr> ac_store = k, ac_kind = OfflineAlert, ac_severity = Critical,
                      ac_time = s_now env \<rparr>]
              else [])"
  using assms
  by (simp_all add: checkStore_def Let_def minutes_gt update_conv' calls_for_def)

lemma sync_row_present:
  "map_of (allStores s) k = Some v \<Longrightarrow> map_of (allStores (sync_row t r s)) k = Some v"
  by (auto simp: sync_row_def update_conv')

lemma sync_row_fields [simp]:
  "alert_calls (sync_row t r s) = alert_calls s"
  "outbox (sync_row t r s) = outbox s"
  "db (sync_row t r s) = db s"
  by (simp_all add: sync_row_def)

lemma fold_sync_row_present:
  "map_of (allStores s) k = Some v \<Longrightarrow>
   map_of (allStores (fold (sync_row t) rows s)) k = Some v"
  by (induction rows arbitrary: s) (simp_all add: sync_row_present)

lemma fold_sync_row_fields [simp]:
  "alert_calls (fold (sync_row t) rows s) = alert_calls s"
  "outbox (fold (sync_row t) rows s) = outbox s"
  "db (fold (sync_row t) rows s) = db s"
  by (induction rows arbitrary: s) simp_all

lemma syncWithDatabase_present:
  "map_of (allStores s) k = Some v \<Longrightarrow>
   map_of (allStores (syncWithDatabase env t s)) k = Some v"
  by (simp add: syncWithDatabase_def fold_sync_row_present)

lemma syncWithDatabase_fields [simp]:
  "alert_calls (syncWithDatabase env t s) = alert_calls s"
  "outbox (syncWithDatabase env t s) = outbox s"
  "db (syncWithDatabase env t s) = db s"
  by (simp_all add: syncWithDatabase_def)

lemma syncWithDatabase_calls_for [simp]:
  "calls_for k (syncWithDatabase env t s) = calls_for k s"
  by (simp add: calls_for_def)

lemma sync_row_absent_other:
  "r_store_id r \<noteq> sid \<Longrightarrow>
   map_of (allStores (sync_row t r s)) (Some sid) = map_of (allStores s) (Some sid)"
  by (simp add: sync_row_def update_conv')

lemma sync_row_adds:
  "map_of (allStores s) (Some (r_store_id r)) = None \<Longrightarrow>
   map_of (allStores (sync_row t r s)) (Some (r_store_id r)) = Some (hydrate_sync t r)"
  by (simp add: sync_row_def update_conv')

lemma fold_sync_row_adds:
  "distinct (map r_store_id rows) \<Longrightarrow> row \<in> set rows \<Longrightarrow>
   map_of (allStores s) (Some (r_store_id row)) = None \<Longrightarrow>
   map_of (allStores (fold (sync_row t) rows s)) (Some (r_store_id row)) =
     Some (hydrate_sync t row)"
proof (induction rows arbitrary: s)
  case Nil
  then show ?case by simp
next
  case (Cons r rows)
  show ?case
  proof (cases "r = row")
    case True
    with Cons.prems(3) show ?thesis
      by (simp add: sync_row_adds fold_sync_row_present)
  next
    case False
    with Cons.prems have in_rows: "row \<in> set rows" and d: "distinct (map r_store_id rows)"
      and ne: "r_store_id r \<noteq> r_store_id row"
      by auto
    from ne Cons.prems(3)
    have "map_of (allStores (sync_row t r s)) (Some (r_store_id row)) = None"
      by (simp add: sync_row_absent_other)
    from Cons.IH[OF d in_rows this] show ?thesis by simp
  qed
qed

lemma load_row_sets:
  "map_of (allStores (load_row r s)) (Some (r_store_id r)) = Some (hydrate_load r)"
  by (simp add: load_row_def update_conv')

lemma load_row_other:
  "sid \<noteq> r_store_id r \<Longrightarrow>
   map_of (allStores (load_row r s)) (Some sid) = map_of (allStores s) (Some sid)"
  by (simp add: load_row_def update_conv')

lemma load_row_fields [simp]:
  "alert_calls (load_row r s) = alert_calls s"
  "outbox (load_row r s) = outbox s"
  "db (load_row r s) = db s"
  by (simp_all add: load_row_def)

lemma fold_load_row_fields [simp]:
  "alert_calls (fold load_row rows s) = alert_calls s"
  "outbox (fold load_row rows s) = outbox s"
  "db (fold load_row rows s) = db s"
  by (induction rows arbitrary: s) simp_all

lemma fold_load_row_other:
  "sid \<notin> r_store_id ` set rows \<Longrightarrow>
   map_of (allStores (fold load_row rows s)) (Some sid) = map_of (allStores s) (Some sid)"
  by (induction rows arbitrary: s) (simp_all add: load_row_other)

lemma fold_load_row_sets:
  "distinct (map r_store_id rows) \<Longrightarrow> row \<in> set rows \<Longrightarrow>
   map_of (allStores (fold load_row rows s)) (Some (r_store_id row)) = Some (hydrate_load row)"
proof (induction rows arbitrary: s)
  case Nil
  then show ?case by simp
next
  case (Cons r rows)
  show ?case
  proof (cases "r = row")
    case True
    with Cons.prems(1) have "r_store_id row \<notin> r_store_id ` set rows" by simp
    from fold_load_row_other[OF this, of "load_row row s"] True show ?thesis
      by (simp add: load_row_sets)
  next
    case False
    with Cons.prems show ?thesis by (simp add: Cons.IH)
  qed
qed

lemma updateStoreStatusInDB_rows:
  "map r_store_id (tbl_stores (db (updateStoreStatusInDB env k st t s))) =
     map r_store_id (tbl_stores (db s))"
  "Some (r_store_id row) \<noteq> k \<Longrightarrow>
     (row \<in> set (tbl_stores (db (updateStoreStatusInDB env k st t s)))) =
     (row \<in> set (tbl_stores (db s)))"
  by (auto simp: updateStoreStatusInDB_def comp_def split: option.splits)

lemma checkStore_rows:
  "map r_store_id (tbl_stores (db (checkStore env k s))) = map r_store_id (tbl_stores (db s))"
  "Some (r_store_id row) \<noteq> k \<Longrightarrow>
     (row \<in> set (tbl_stores (db (checkStore env k s)))) = (row \<in> set (tbl_stores (db s)))"
  by (simp_all add: checkStore_def Let_def split_beta updateStoreStatusInDB_rows
      split: option.splits)

lemma fold_checkStore_rows:
  "map r_store_id (tbl_stores (db (fold (checkStore env) ks s))) =
     map r_store_id (tbl_stores (db s))"
  "Some (r_store_id row) \<notin> set ks \<Longrightarrow>
     (row \<in> set (tbl_stores (db (fold (checkStore env) ks s)))) =
     (row \<in> set (tbl_stores (db s)))"
  by (induction ks arbitrary: s) (simp_all add: checkStore_rows)

lemma saveHeartbeatToDatabase_fields [simp]:
  "allStores (saveHeartbeatToDatabase env k hb t s) = allStores s"
  "lastOfflineAlerts (saveHeartbeatToDatabase env k hb t s) = lastOfflineAlerts s"
  "lastRecoveryAlerts (saveHeartbeatToDatabase env k hb t s) = lastRecoveryAlerts s"
  "lastStartupAlerts (saveHeartbeatToDatabase env k hb t s) = lastStartupAlerts s"
  "alert_calls (saveHeartbeatToDatabase env k hb t s) = alert_calls s"
  "outbox (saveHeartbeatToDatabase env k hb t s) = outbox s"
  "emailEnabled (saveHeartbeatToDatabase env k hb t s) = emailEnabled s"
  "storeEmailConfig (saveHeartbeatToDatabase env k hb t s) = storeEmailConfig s"
  "tbl_alerts (db (saveHeartbeatToDatabase env k hb t s)) = tbl_alerts (db s)"
  by (simp_all add: saveHeartbeatToDatabase_def split: option.splits)

lemma sendAlert_env_save [simp]:
  "sendAlert (env\<lparr>save_throws := x\<rparr>) k kind sev s = sendAlert env k kind sev s"
  by (simp add: sendAlert_def Let_def cong: option.case_cong if_cong)

lemma heartbeat_alerts_env_save [simp]:
  "heartbeat_alerts (env\<lparr>save_throws := x\<rparr>) k t a b c s = heartbeat_alerts env k t a b c s"
  by (simp add: heartbeat_alerts_def)

lemma heartbeat_alerts_registry:
  "registry s = registry s' \<Longrightarrow>
   registry (heartbeat_alerts env k t a b c s) = registry (heartbeat_alerts env' k t a b c s')"
  by (simp add: heartbeat_alerts_def Let_def registry_def)

lemma save_fails:
  "saveHeartbeatToDatabase (env\<lparr>save_throws := True\<rparr>) k hb t s1 = s1"
  by (simp add: saveHeartbeatToDatabase_def split: option.splits)

lemma processHeartbeat_snd:
  "snd (processHeartbeat env hb s) =
     heartbeat_alerts env (hb_store_id hb) (s_now env)
       (map_of (allStores s) (hb_store_id hb) = None) (hb_is_startup hb)
       (case map_of (allStores s) (hb_store_id hb) of
          None \<Rightarrow> False | Some p \<Rightarrow> st_status p = Offline)
       (saveHeartbeatToDatabase env (hb_store_id hb) hb (s_now env)
          (s\<lparr>allStores := AList.update (hb_store_id hb)
               \<lparr> st_store_id = hb_store_id hb,
                 st_store_name = or_default (hb_store_name hb) (store_label (hb_store_id hb)),
                 st_location = or_default (hb_timezone hb) ''Unknown'',
                 st_status = Online, st_last_heartbeat = Some (s_now env),
                 st_data = Some hb, st_updated_at = s_now env,
                 st_first_seen =
                   (case map_of (allStores s) (hb_store_id hb) of
                      None \<Rightarrow> s_now env | Some p \<Rightarrow> st_first_seen p) \<rparr>
               (allStores s)\<rparr>))"
  by (simp add: processHeartbeat_def Let_def)

lemma processHeartbeat_registry:
  "registry (snd (processHeartbeat (env\<lparr>save_throws := True\<rparr>) hb s)) =
   registry (snd (processHeartbeat (env\<lparr>save_throws := False\<rparr>) hb s))"
proof -
  have e: "s_now (env\<lparr>save_throws := True\<rparr>) = s_now env"
    "s_now (env\<lparr>save_throws := False\<rparr>) = s_now env"
    by simp_all
  show ?thesis
    unfolding processHeartbeat_snd e heartbeat_alerts_env_save
    by (rule heartbeat_alerts_registry) (simp add: registry_def)
qed

lemma processHeartbeat_allStores:
  "allStores (snd (processHeartbeat env hb s)) =
     AList.update (hb_store_id hb)
       \<lparr> st_store_id = hb_store_id hb,
         st_store_name = or_default (hb_store_name hb) (store_label (hb_store_id hb)),
         st_location = or_default (hb_timezone hb) ''Unknown'',
         st_status = Online, st_last_heartbeat = Some (s_now env),
         st_data = Some hb, st_updated_at = s_now env,
         st_first_seen =
           (case map_of (allStores s) (hb_store_id hb) of
              None \<Rightarrow> s_now env | Some p \<Rightarrow> st_first_seen p) \<rparr>
       (allStores s)"
  by (simp add: processHeartbeat_snd heartbeat_alerts_def Let_def)

lemma processHeartbeat_fst:
  "fst (processHeartbeat env hb s) = length (allStores (snd (processHeartbeat env hb s)))"
  by (simp add: processHeartbeat_def Let_def)

lemma heartbeat_alerts_tables [simp]:
  "tbl_stores (db (heartbeat_alerts env k t a b c s)) = tbl_stores (db s)"
  by (simp add: heartbeat_alerts_def Let_def)

lemma sendAlert_tables [simp]:
  "tbl_heartbeat_history (db (sendAlert env k kind sev s)) = tbl_heartbeat_history (db s)"
  "tbl_system_stats (db (sendAlert env k kind sev s)) = tbl_system_stats (db s)"
  by (simp_all add: sendAlert_def Let_def split: option.splits)

lemma heartbeat_alerts_tables2 [simp]:
  "tbl_heartbeat_history (db (heartbeat_alerts env k t a b c s)) = tbl_heartbeat_history (db s)"
  "tbl_system_stats (db (heartbeat_alerts env k t a b c s)) = tbl_system_stats (db s)"
  by (simp_all add: heartbeat_alerts_def Let_def)

lemma processHeartbeat_save_fails_tables:
  "tbl_stores (db (snd (processHeartbeat (env\<lparr>save_throws := True\<rparr>) hb s))) = tbl_stores (db s)"
  "tbl_heartbeat_history (db (snd (processHeartbeat (env\<lparr>save_throws := True\<rparr>) hb s))) = tbl_heartbeat_history (db s)"
  "tbl_system_stats (db (snd (processHeartbeat (env\<lparr>save_throws := True\<rparr>) hb s))) = tbl_system_stats (db s)"
  by (simp_all add: processHeartbeat_snd save_fails)

lemma config_get_upd [simp]:
  "config_get (s\<lparr>alert_calls := x\<rparr>) k = config_get s k"
  "config_get (s\<lparr>db := y\<rparr>) k = config_get s k"
  "config_get (s\<lparr>outbox := z\<rparr>) k = config_get s k"
  by (simp_all add: config_get_def cong: option.case_cong)

lemma getEmailRecipients_upd [simp]:
  "getEmailRecipients (s\<lparr>alert_calls := x\<rparr>) k = getEmailRecipients s k"
  "getEmailRecipients (s\<lparr>db := y\<rparr>) k = getEmailRecipients s k"
  by (simp_all add: getEmailRecipients_def)

lemma srv_mail_facts:
  "storeEmailConfig srv_mail ''A'' = Some [''a@example.org'']"
  "storeEmailConfig srv_mail ''B'' = Some []"
  "storeEmailConfig srv_mail ''C'' = None"
  "storeEmailConfig srv_mail ''default'' = Some [''ops@example.org'']"
  "emailEnabled srv_mail" "outbox srv_mail = []" "tbl_alerts (db srv_mail) = []"
  "set (map r_store_id (tbl_stores (db srv_mail))) = {''A'', ''B'', ''C''}"
  by (simp_all add: srv_mail_def new_server_def empty_db_def store_row_of_def)

section \<open>Basic facts about the drain loop\<close>

lemma mark_sent_compose:
  "map (\<lambda>r. if b_id r \<in> S then r\<lparr>b_sent := True\<rparr> else r) (mark_sent i tbl) =
   map (\<lambda>r. if b_id r \<in> insert i S then r\<lparr>b_sent := True\<rparr> else r) tbl"
  by (simp add: mark_sent_def)

lemma delivered_ids_Nil [simp]: "delivered_ids env [] = {}"
  by (simp add: delivered_ids_def)

lemma delivered_ids_Cons:
  "delivered_ids env (r # rs) =
     (if network_failure env r then {}
      else if acknowledged env r then insert (b_id r) (delivered_ids env rs)
      else delivered_ids env rs)"
  by (auto simp: delivered_ids_def)

lemma reached_Nil [simp]: "reached env [] = []"
  by (simp add: reached_def)

lemma reached_Cons:
  "reached env (r # rs) = (if network_failure env r then [r] else r # reached env rs)"
  by (simp add: reached_def)

lemma map_mark_empty [simp]:
  "map (\<lambda>r. if b_id r \<in> {} then r\<lparr>b_sent := True\<rparr> else r) tbl = tbl"
  by simp

lemma drain_loop_db:
  assumes "update_throws env = (\<lambda>_. None)"
  shows "localDb c = Some tbl \<Longrightarrow>
     drain_loop env rows (c, posted) =
       (c\<lparr>localDb := Some (map (\<lambda>r. if b_id r \<in> delivered_ids env rows
                                      then r\<lparr>b_sent := True\<rparr> else r) tbl)\<rparr>,
        posted @ map b_id (filter (\<lambda>r. decode r \<noteq> None) (reached env rows)))"
proof (induction rows arbitrary: c tbl posted)
  case Nil
  then show ?case by simp
next
  case (Cons row rows)
  show ?case
  proof (cases "decode row")
    case None
    then have "\<not> network_failure env row" "\<not> acknowledged env row"
      by (simp_all add: network_failure_def acknowledged_def network_code_def)
    with None Cons.IH[OF Cons.prems] show ?thesis
      by (simp add: delivered_ids_Cons reached_Cons)
  next
    case (Some hb)
    show ?thesis
    proof (cases "post_buffered env (b_id row)")
      case (Resp st)
      show ?thesis
      proof (cases "st = 200")
        case True
        with Some Resp have cls: "\<not> network_failure env row" "acknowledged env row"
          by (simp_all add: network_failure_def acknowledged_def network_code_def)
        let ?c' = "c\<lparr>localDb := Some (mark_sent (b_id row) tbl)\<rparr>"
        have "localDb ?c' = Some (mark_sent (b_id row) tbl)" by simp
        from Cons.IH[OF this, of "posted @ [b_id row]"] Some Resp True cls assms Cons.prems
        show ?thesis
          by (simp add: delivered_ids_Cons reached_Cons mark_sent_compose)
      next
        case False
        with Some Resp have cls: "\<not> network_failure env row" "\<not> acknowledged env row"
          by (simp_all add: network_failure_def acknowledged_def network_code_def)
        with Some Resp False Cons.IH[OF Cons.prems, of "posted @ [b_id row]"] show ?thesis
          by (simp add: delivered_ids_Cons reached_Cons)
      qed
    next
      case (Throw code)
      show ?thesis
      proof (cases "network_code code")
        case True
        with Some Throw have cls: "network_failure env row"
          by (simp add: network_failure_def network_code_def)
        with Some Throw True Cons.prems show ?thesis
          by (simp add: delivered_ids_Cons reached_Cons)
      next
        case False
        with Some Throw have cls: "\<not> network_failure env row" "\<not> acknowledged env row"
          by (simp_all add: network_failure_def acknowledged_def network_code_def)
        with Some Throw False Cons.IH[OF Cons.prems, of "posted @ [b_id row]"] show ?thesis
          by (simp add: delivered_ids_Cons reached_Cons)
      qed
    qed
  qed
qed

lemma splice_id_filter:
  "distinct (map b_id buf) \<Longrightarrow> splice_id i buf = filter (\<lambda>r. b_id r \<noteq> i) buf"
proof (induction buf)
  case Nil
  then show ?case by simp
next
  case (Cons r rs)
  show ?case
  proof (cases "b_id r = i")
    case True
    with Cons.prems have "i \<notin> b_id ` set rs" by simp
    then have "\<forall>q\<in>set rs. b_id q \<noteq> i" by blast
    then have "filter (\<lambda>r. b_id r \<noteq> i) rs = rs" by (simp add: filter_id_conv)
    with True show ?thesis by simp
  next
    case False
    with Cons show ?thesis by simp
  qed
qed

lemma drain_loop_mem:
  "localDb c = None \<Longrightarrow> heartbeatBuffer c = Some buf \<Longrightarrow> distinct (map b_id buf) \<Longrightarrow>
     drain_loop env rows (c, posted) =
       (c\<lparr>heartbeatBuffer := Some (filter (\<lambda>r. b_id r \<notin> delivered_ids env rows) buf)\<rparr>,
        posted @ map b_id (filter (\<lambda>r. decode r \<noteq> None) (reached env rows)))"
proof (induction rows arbitrary: c buf posted)
  case Nil
  then show ?case by simp
next
  case (Cons row rows)
  note prems = Cons.prems
  show ?case
  proof (cases "decode row")
    case None
    then have "\<not> network_failure env row" "\<not> acknowledged env row"
      by (simp_all add: network_failure_def acknowledged_def network_code_def)
    with None Cons.IH[OF prems] show ?thesis
      by (simp add: delivered_ids_Cons reached_Cons)
  next
    case (Some hb)
    show ?thesis
    proof (cases "post_buffered env (b_id row)")
      case (Resp st)
      show ?thesis
      proof (cases "st = 200")
        case True
        with Some Resp have cls: "\<not> network_failure env row" "acknowledged env row"
          by (simp_all add: network_failure_def acknowledged_def network_code_def)
        let ?buf' = "filter (\<lambda>r. b_id r \<noteq> b_id row) buf"
        let ?c' = "c\<lparr>heartbeatBuffer := Some ?buf'\<rparr>"
        have a: "localDb ?c' = None" "heartbeatBuffer ?c' = Some ?buf'"
          using prems by simp_all
        have d: "distinct (map b_id ?buf')"
          using prems(3) by (simp add: distinct_map_filter)
        have sp: "map_option (splice_id (b_id row)) (heartbeatBuffer c) = Some ?buf'"
          using prems by (simp add: splice_id_filter)
        have f: "filter (\<lambda>r. b_id r \<notin> delivered_ids env rows) ?buf' =
                 filter (\<lambda>r. b_id r \<notin> insert (b_id row) (delivered_ids env rows)) buf"
          by (auto intro: filter_cong)
        from Cons.IH[OF a d, of "posted @ [b_id row]"] Some Resp True cls prems sp f
        show ?thesis
          by (simp add: delivered_ids_Cons reached_Cons)
      next
        case False
        with Some Resp have cls: "\<not> network_failure env row" "\<not> acknowledged env row"
          by (simp_all add: network_failure_def acknowledged_def network_code_def)
        with Some Resp False Cons.IH[OF prems, of "posted @ [b_id row]"] show ?thesis
          by (simp add: delivered_ids_Cons reached_Cons)
      qed
    next
      case (Throw code)
      show ?thesis
      proof (cases "network_code code")
        case True
        with Some Throw have cls: "network_failure env row"
          by (simp add: network_failure_def network_code_def)
        with Some Throw True prems show ?thesis
          by (simp add: delivered_ids_Cons reached_Cons)
      next
        case False
        with Some Throw have cls: "\<not> network_failure env row" "\<not> acknowledged env row"
          by (simp_all add: network_failure_def acknowledged_def network_code_def)
        with Some Throw False Cons.IH[OF prems, of "posted @ [b_id row]"] show ?thesis
          by (simp add: delivered_ids_Cons reached_Cons)
      qed
    qed
  qed
qed

lemma peek_batch_db:
  assumes "localDb c = Some tbl"
  shows "length (peek_batch c) \<le> 10"
    and "sorted (map b_id (peek_batch c))"
    and "set (peek_batch c) \<subseteq> {r \<in> set tbl. \<not> b_sent r}"
    and "\<forall>r\<in>{r \<in> set tbl. \<not> b_sent r} - set (peek_batch c).
           \<forall>q\<in>set (peek_batch c). b_id q \<le> b_id r"
proof -
  let ?xs = "sort_key b_id (filter (\<lambda>r. \<not> b_sent r) tbl)"
  have pb: "peek_batch c = take 10 ?xs"
    using assms by (simp add: peek_batch_def)
  show "length (peek_batch c) \<le> 10" by (simp add: pb)
  have s: "sorted (map b_id ?xs)" by simp
  then show "sorted (map b_id (peek_batch c))"
    unfolding pb by (simp add: take_map[symmetric] sorted_wrt_take del: sorted_sort_key)
  show "set (peek_batch c) \<subseteq> {r \<in> set tbl. \<not> b_sent r}"
    unfolding pb using set_take_subset[of 10 ?xs] by auto
  have "sorted (map b_id (take 10 ?xs @ drop 10 ?xs))"
    using s by (simp del: sorted_sort_key)
  then have le: "\<forall>q\<in>set (take 10 ?xs). \<forall>r\<in>set (drop 10 ?xs). b_id q \<le> b_id r"
    by (simp only: map_append sorted_append) auto
  show "\<forall>r\<in>{r \<in> set tbl. \<not> b_sent r} - set (peek_batch c).
           \<forall>q\<in>set (peek_batch c). b_id q \<le> b_id r"
  proof (intro ballI)
    fix r q
    assume r: "r \<in> {r \<in> set tbl. \<not> b_sent r} - set (peek_batch c)"
      and q: "q \<in> set (peek_batch c)"
    from r have "r \<in> set ?xs" by simp
    then have "r \<in> set (take 10 ?xs) \<union> set (drop 10 ?xs)"
      by (metis append_take_drop_id set_append)
    with r have "r \<in> set (drop 10 ?xs)" by (simp add: pb)
    with q le show "b_id q \<le> b_id r" by (simp add: pb)
  qed
qed

lemma peek_six: "peek_batch client_db = six_rows"
  by (simp add: peek_batch_def client_db_def new_client_def six_rows_def buf_row_def)

lemma nf_six:
  "network_failure drain_env (buf_row i (Payload hb_A) t) = (i = 5)"
  "\<not> network_failure drain_env (buf_row i Unparseable t)"
  by (auto simp: network_failure_def decode_def buf_row_def hb_A_def drain_env_def
      network_code_def)


lemma b_id_buf_row [simp]: "b_id (buf_row i d t) = i"
  by (simp add: buf_row_def)

lemma reached_six: "reached drain_env six_rows = take 5 six_rows"
  by (simp add: six_rows_def reached_Cons nf_six)


lemma reached_subset: "set (reached env rows) \<subseteq> set rows"
  by (induction rows) (auto simp: reached_Cons)

lemma delivered_ids_subset:
  "delivered_ids env rows \<subseteq> b_id ` {q \<in> set rows. decode q \<noteq> None}"
  by (auto simp: delivered_ids_def acknowledged_def dest: set_takeWhileD)

lemma decode_buf_row [simp]:
  "decode (buf_row i (Payload hb_A) t) = Some hb_A"
  "decode (buf_row i Unparseable t) = None"
  by (simp_all add: decode_def buf_row_def hb_A_def)





lemma drain_loop_skips_invalid:
  "drain_loop env rows st = drain_loop env (filter (\<lambda>r. decode r \<noteq> None) rows) st"
proof (induction rows arbitrary: st)
  case Nil
  then show ?case by simp
next
  case (Cons row rows)
  obtain c posted where st: "st = (c, posted)" by (cases st)
  show ?case
  proof (cases "decode row")
    case None
    with Cons.IH[of "(c, posted)"] st show ?thesis by simp
  next
    case (Some hb)
    with Cons.IH st show ?thesis
      by (simp split: post_result.splits option.splits)
  qed
qed

lemma mem3_rows:
  "heartbeatBuffer client_mem3 =
     Some [buf_row 1 (Payload hb_A) 0, buf_row 2 (Payload hb_no_id) 0,
           buf_row 3 (Payload hb_A) 0]"
  "localDb client_mem3 = None"
  "peek_batch client_mem3 =
     [buf_row 1 (Payload hb_A) 0, buf_row 2 (Payload hb_no_id) 0, buf_row 3 (Payload hb_A) 0]"
  by (simp_all add: client_mem3_def new_client_def peek_batch_def)

lemma decode_no_id [simp]: "decode (buf_row i (Payload hb_no_id) t) = None"
  by (simp add: decode_def buf_row_def hb_no_id_def)

lemma nf_gc [simp]: "\<not> network_failure (gc_env t) r"
  by (simp add: network_failure_def gc_env_def)

lemma reached_gc [simp]: "reached (gc_env t) rows = rows"
  by (induction rows) (simp_all add: reached_Cons)

section \<open>The startup flag of the client\<close>

lemma drain_loop_flag:
  "isFirstHeartbeat (fst (drain_loop env rows (c, posted))) = isFirstHeartbeat c"
  by (induction rows arbitrary: c posted)
     (auto split: option.splits post_result.splits)

lemma sendBufferedHeartbeats_flag:
  "isFirstHeartbeat (fst (sendBufferedHeartbeats env c)) = isFirstHeartbeat c"
  by (simp add: sendBufferedHeartbeats_def drain_loop_flag)

lemma storeHeartbeatLocally_flag:
  "isFirstHeartbeat (storeHeartbeatLocally env p c) = isFirstHeartbeat c"
  by (simp add: storeHeartbeatLocally_def Let_def split: option.splits)

lemma sendHeartbeat_payload_flag:
  "hb_is_startup (fst (sendHeartbeat env c)) = isFirstHeartbeat c"
  by (simp add: sendHeartbeat_def Let_def createHeartbeatPayload_def
      split: post_result.splits prod.splits)

lemma sendHeartbeat_flag:
  "isFirstHeartbeat (fst (snd (snd (sendHeartbeat env c)))) =
     (isFirstHeartbeat c \<and> \<not> delivered env)"
proof (cases "post_live env")
  case (Resp st)
  show ?thesis
  proof (cases "st = 200")
    case True
    let ?c1 = "c\<lparr>consecutiveFailures := 0, lastSuccessfulConnection := Some (now env),
                  isFirstHeartbeat := False\<rparr>"
    obtain c2 posted where d: "sendBufferedHeartbeats env ?c1 = (c2, posted)"
      by (cases "sendBufferedHeartbeats env ?c1")
    from sendBufferedHeartbeats_flag[of env ?c1] d have "\<not> isFirstHeartbeat c2"
      by simp
    with Resp True d show ?thesis
      by (simp add: sendHeartbeat_def Let_def delivered_def)
  next
    case False
    with Resp show ?thesis
      by (simp add: sendHeartbeat_def Let_def delivered_def storeHeartbeatLocally_flag)
  qed
next
  case (Throw code)
  then show ?thesis
    by (simp add: sendHeartbeat_def Let_def delivered_def storeHeartbeatLocally_flag)
qed

lemma attempts_flag:
  "k < length envs \<Longrightarrow>
   hb_is_startup (attempts c envs ! k) =
     (isFirstHeartbeat c \<and> (\<forall>j<k. \<not> delivered (envs ! j)))"
proof (induction envs arbitrary: c k)
  case Nil
  then show ?case by simp
next
  case (Cons env envs)
  obtain p ok c' posted where sh: "sendHeartbeat env c = (p, ok, c', posted)"
    by (cases "sendHeartbeat env c") auto
  have p: "hb_is_startup p = isFirstHeartbeat c"
    using sendHeartbeat_payload_flag[of env c] sh by simp
  have c': "isFirstHeartbeat c' = (isFirstHeartbeat c \<and> \<not> delivered env)"
    using sendHeartbeat_flag[of env c] sh by simp
  show ?case
  proof (cases k)
    case 0
    with sh p show ?thesis by simp
  next
    case (Suc m)
    with Cons.prems have m: "m < length envs" by simp
    have "(\<forall>j<Suc m. \<not> delivered ((env # envs) ! j)) =
          (\<not> delivered env \<and> (\<forall>j<m. \<not> delivered (envs ! j)))"
      by (auto simp: less_Suc_eq_0_disj)
    with Cons.IH[OF m, of c'] sh c' Suc show ?thesis by auto
  qed
qed

text \<open>
  C7. A client process starts with the flag set. The payload of attempt number \<open>k\<close>
  (counting from 0, the initial heartbeat) carries \<^verbatim>\<open>is_startup = true\<close> exactly when
  none of the earlier attempts was delivered, that is answered with status 200: the
  flag stays up through failed attempts, is cleared by the first delivery and is never
  raised again.
\<close>

theorem is_startup_until_first_delivery:
  "k < length envs \<Longrightarrow>
   hb_is_startup (attempts (new_client sid sname ldb) envs ! k) =
     (\<forall>j<k. \<not> delivered (envs ! j))"
  using attempts_flag[of k envs "new_client sid sname ldb"]
  by (simp add: new_client_def)

theorem is_startup_until_first_delivery_witness:
  "(3::nat) < length [attempt_env (Throw ''ECONNREFUSED''), attempt_env (Resp 500),
                      attempt_env (Resp 200), attempt_env (Throw ''ETIMEDOUT'')] \<and>
   \<not> hb_is_startup
       (attempts (new_client ''2308'' ''Store A'' None)
          [attempt_env (Throw ''ECONNREFUSED''), attempt_env (Resp 500),
           attempt_env (Resp 200), attempt_env (Throw ''ETIMEDOUT'')] ! 3)"
proof -
  let ?envs = "[attempt_env (Throw ''ECONNREFUSED''), attempt_env (Resp 500),
                attempt_env (Resp 200), attempt_env (Throw ''ETIMEDOUT'')]"
  have len: "(3::nat) < length ?envs" by simp
  have d: "delivered (?envs ! 2)" by (simp add: delivered_def attempt_env_def)
  have "(2::nat) < 3" by simp
  with d have "\<exists>j<3::nat. delivered (?envs ! j)" by blast
  then have "\<not> (\<forall>j<3::nat. \<not> delivered (?envs ! j))" by blast
  with is_startup_until_first_delivery[OF len, of "''2308''" "''Store A''" None] len
  show ?thesis by blast
qed

section \<open>The sweeper's offline threshold\<close>

text \<open>
  C1, as the specification states it, fails on the code. The store \<open>A\<close> was last heard
  of at instant 0 and the sweep runs at 330000 ms, exactly the threshold of five
  minutes plus the 30 s buffer later: the specification promises no alert there, the
  code marks the store offline and fires the first offline alert.
\<close>

theorem sweep_at_threshold_plus_buffer_counterexample:
  "\<not> (330000 - 0 > (5 * 60000 + 30000 :: int)) \<and>
   calls_for (Some ''A'') (performHealthCheck (env_at 330000) srv_A) =
     [\<lparr> ac_store = Some ''A'', ac_kind = OfflineAlert, ac_severity = Critical,
        ac_time = 330000 \<rparr>] \<and>
   map_option st_status
     (map_of (allStores (performHealthCheck (env_at 330000) srv_A)) (Some ''A'')) =
     Some Offline"
  by (simp add: scenario_defs)

text \<open>
  C1, amended. For every store with a recorded last heartbeat \<open>t\<close> that is not marked
  offline, a sweep at instant \<open>now\<close> marks it offline and fires the first offline alert
  exactly when \<open>now - t\<close> exceeds \<open>alertThresholdMinutes\<close> minutes; otherwise the sweep
  leaves the entry as it is and fires nothing for the store. There is no buffer on top
  of the threshold.
\<close>

theorem sweep_offline_threshold:
  assumes "distinct (map fst (allStores s))"
    and "map_of (allStores s) k = Some st"
    and "st_last_heartbeat st = Some t"
    and "st_status st \<noteq> Offline"
  shows "map_of (allStores (performHealthCheck env s)) k =
           (if s_now env - t > alertThresholdMinutes s * 60000
            then Some (st\<lparr>st_status := Offline\<rparr>) else Some st) \<and>
         calls_for k (performHealthCheck env s) =
           calls_for k s @
             (if s_now env - t > alertThresholdMinutes s * 60000
              then [\<lparr> ac_store = k, ac_kind = OfflineAlert, ac_severity = Critical,
                      ac_time = s_now env \<rparr>]
              else [])"
proof -
  from assms(2) have "k \<in> set (map fst (allStores s))"
    by (metis map_of_eq_None_iff option.simps(3) set_map)
  then obtain pre post where ks: "map fst (allStores s) = pre @ k # post"
    by (auto dest: split_list)
  from assms(1) have "distinct (pre @ k # post)"
    by (simp only: ks)
  then have pre: "k \<notin> set pre" and post: "k \<notin> set post"
    by simp_all
  let ?s1 = "fold (checkStore env) pre s"
  let ?s2 = "checkStore env k ?s1"
  let ?s3 = "fold (checkStore env) post ?s2"
  have s1: "map_of (allStores ?s1) k = Some st"
      "calls_for k ?s1 = calls_for k s"
      "alertThresholdMinutes ?s1 = alertThresholdMinutes s"
    using fold_checkStore_other[OF pre, of env s] assms(2) by simp_all
  note s2 = checkStore_first_offline[OF s1(1) assms(3,4), of env]
  have s3: "map_of (allStores ?s3) k = map_of (allStores ?s2) k"
      "calls_for k ?s3 = calls_for k ?s2"
    using fold_checkStore_other[OF post, of env ?s2] by simp_all
  have phc: "performHealthCheck env s = syncWithDatabase env (s_now env) ?s3"
    by (simp add: performHealthCheck_def ks)
  have "map_of (allStores (performHealthCheck env s)) k =
           (if s_now env - t > alertThresholdMinutes s * 60000
            then Some (st\<lparr>st_status := Offline\<rparr>) else Some st)"
    unfolding phc using s3(1) s2(1) s1(3)
    by (simp add: syncWithDatabase_present)
  moreover have "calls_for k (performHealthCheck env s) =
           calls_for k s @
             (if s_now env - t > alertThresholdMinutes s * 60000
              then [\<lparr> ac_store = k, ac_kind = OfflineAlert, ac_severity = Critical,
                      ac_time = s_now env \<rparr>]
              else [])"
    unfolding phc using s3(2) s2(2) s1(2,3) by simp
  ultimately show ?thesis by blast
qed

theorem sweep_offline_threshold_witness:
  "calls_for (Some ''A'') (performHealthCheck (env_at 300000) srv_A) = [] \<and>
   map_of (allStores (performHealthCheck (env_at 300000) srv_A)) (Some ''A'') = Some store_A \<and>
   calls_for (Some ''A'') (performHealthCheck (env_at 300001) srv_A) =
     [\<lparr> ac_store = Some ''A'', ac_kind = OfflineAlert, ac_severity = Critical,
        ac_time = 300001 \<rparr>] \<and>
   map_of (allStores (performHealthCheck (env_at 300001) srv_A)) (Some ''A'') =
     Some (store_A\<lparr>st_status := Offline\<rparr>)"
proof -
  have h1: "distinct (map fst (allStores srv_A))"
    and h2: "map_of (allStores srv_A) (Some ''A'') = Some store_A"
    and h3: "st_last_heartbeat store_A = Some 0"
    and h4: "st_status store_A \<noteq> Offline"
    by (simp_all add: srv_A_def store_A_def new_server_def)
  have c: "calls_for (Some ''A'') srv_A = []" "alertThresholdMinutes srv_A = 5"
    by (simp_all add: srv_A_def new_server_def calls_for_def)
  from sweep_offline_threshold[OF h1 h2 h3 h4, of "env_at 300000"]
       sweep_offline_threshold[OF h1 h2 h3 h4, of "env_at 300001"] c
  show ?thesis by (simp add: env_at_def)
qed

section \<open>Cooldown between offline alerts\<close>

text \<open>
  C2 at the failing input: store \<open>A\<close>, last heard of at instant 0, no cooldown entry,
  cooldown five minutes. The sweep at 7 min fires the first offline alert without
  stamping \<^verbatim>\<open>lastOfflineAlerts\<close>, so the sweep at 9 min finds no entry there and
  fires a repeat: two offline alerts for one store, two minutes apart.
\<close>

theorem repeat_offline_alert_within_cooldown:
  "offlineAlertCooldownMinutes srv_A = 5 \<and>
   lastOfflineAlerts srv_A (Some ''A'') = None \<and>
   map ac_kind (calls_for (Some ''A'')
     (performHealthCheck (env_at 540000) (performHealthCheck (env_at 420000) srv_A))) =
     [OfflineAlert, OfflineAlert] \<and>
   map ac_time (calls_for (Some ''A'')
     (performHealthCheck (env_at 540000) (performHealthCheck (env_at 420000) srv_A))) =
     [420000, 540000] \<and>
   (540000 - 420000 :: int) < 5 * 60000"
  by (simp add: scenario_defs)

section \<open>Hydration from the database\<close>

text \<open>
  C3, as the specification states it, fails on the code. Store \<open>B\<close> is persisted as
  offline and absent from memory; both the sweep's synchronisation and the load at
  startup bring it into memory as offline, not as unknown.
\<close>

theorem hydrated_status_not_unknown_counterexample:
  "map_option st_status
     (map_of (allStores (performHealthCheck (env_at 1000) srv_B)) (Some ''B'')) = Some Offline \<and>
   map_option st_status
     (map_of (allStores (loadExistingStoresFromDB (env_at 1000) srv_B)) (Some ''B'')) = Some Offline"
  by (simp add: scenario_defs srv_B_def row_B_def loadExistingStoresFromDB_def load_row_def
      hydrate_load_def)

text \<open>
  C3, amended. A store found in persistence but absent from memory is hydrated by the
  sweep with the status and the last heartbeat of its row (whatever the persisted status
  is), and the sweep that hydrates it calls \<^verbatim>\<open>sendAlert\<close> for it not once. The load at
  server startup likewise copies the row's status for every row, and makes no call of
  \<^verbatim>\<open>sendAlert\<close> and schedules no mail at all. Store ids are the primary key of the
  table, hence distinct.
\<close>

theorem hydration_copies_persisted_row:
  assumes "distinct (map r_store_id (tbl_stores (db s)))"
    and "row \<in> set (tbl_stores (db s))"
    and "map_of (allStores s) (Some (r_store_id row)) = None"
    and "\<not> select_stores_throws env"
  shows "map_of (allStores (performHealthCheck env s)) (Some (r_store_id row)) =
           Some (hydrate_sync (s_now env) row) \<and>
         st_status (hydrate_sync (s_now env) row) = r_status row \<and>
         st_last_heartbeat (hydrate_sync (s_now env) row) = r_last_heartbeat row \<and>
         calls_for (Some (r_store_id row)) (performHealthCheck env s) =
           calls_for (Some (r_store_id row)) s \<and>
         map_of (allStores (loadExistingStoresFromDB env s)) (Some (r_store_id row)) =
           Some (hydrate_load row) \<and>
         st_status (hydrate_load row) = r_status row \<and>
         st_last_heartbeat (hydrate_load row) = r_last_heartbeat row \<and>
         alert_calls (loadExistingStoresFromDB env s) = alert_calls s \<and>
         outbox (loadExistingStoresFromDB env s) = outbox s"
proof -
  let ?k = "Some (r_store_id row)"
  let ?ks = "map fst (allStores s)"
  let ?s1 = "fold (checkStore env) ?ks s"
  from assms(3) have notin: "?k \<notin> set ?ks"
    by (simp add: map_of_eq_None_iff)
  have absent: "map_of (allStores ?s1) ?k = None" and calls: "calls_for ?k ?s1 = calls_for ?k s"
    using fold_checkStore_other[OF notin, of env s] assms(3) by simp_all
  have d1: "distinct (map r_store_id (tbl_stores (db ?s1)))"
    using assms(1) by (simp add: fold_checkStore_rows(1))
  have r1: "row \<in> set (tbl_stores (db ?s1))"
    using assms(2) fold_checkStore_rows(2)[OF notin, of env s] by simp
  have "map_of (allStores (performHealthCheck env s)) ?k = Some (hydrate_sync (s_now env) row)"
    using fold_sync_row_adds[OF d1 r1 absent, of "s_now env"] assms(4)
    by (simp add: performHealthCheck_def syncWithDatabase_def)
  moreover have "calls_for ?k (performHealthCheck env s) = calls_for ?k s"
    using calls by (simp add: performHealthCheck_def)
  moreover have "map_of (allStores (loadExistingStoresFromDB env s)) ?k = Some (hydrate_load row)"
    using fold_load_row_sets[OF assms(1,2), of s] assms(4)
    by (simp add: loadExistingStoresFromDB_def)
  moreover have "alert_calls (loadExistingStoresFromDB env s) = alert_calls s"
    "outbox (loadExistingStoresFromDB env s) = outbox s"
    by (simp_all add: loadExistingStoresFromDB_def)
  ultimately show ?thesis
    by (simp add: hydrate_sync_def hydrate_load_def)
qed

theorem hydration_copies_persisted_row_witness:
  "map_of (allStores (performHealthCheck (env_at 1000) srv_B)) (Some ''B'') =
     Some (hydrate_sync 1000 row_B) \<and>
   st_status (hydrate_sync 1000 row_B) = Offline \<and>
   calls_for (Some ''B'') (performHealthCheck (env_at 1000) srv_B) = []"
proof -
  have h1: "distinct (map r_store_id (tbl_stores (db srv_B)))"
    and h2: "row_B \<in> set (tbl_stores (db srv_B))"
    and h3: "map_of (allStores srv_B) (Some (r_store_id row_B)) = None"
    and h4: "\<not> select_stores_throws (env_at 1000)"
    by (simp_all add: srv_B_def new_server_def empty_db_def env_at_def)
  have c: "calls_for (Some ''B'') srv_B = []" "r_store_id row_B = ''B''" "r_status row_B = Offline"
    by (simp_all add: srv_B_def new_server_def calls_for_def row_B_def)
  from hydration_copies_persisted_row[OF h1 h2 h3 h4] c show ?thesis
    by (simp add: env_at_def)
qed

section \<open>Classification of a heartbeat that carries the startup flag\<close>

text \<open>
  C5. A heartbeat with \<^verbatim>\<open>is_startup = true\<close> for a store that already has a record,
  whatever the status of that record, takes the startup branch of
  \<^verbatim>\<open>processHeartbeat\<close>: the only alert it can fire is a startup alert (fired when the
  startup cooldown of ten minutes allows), it fires no recovery alert, and it leaves the
  recovery cooldown table untouched.
\<close>

theorem startup_flag_never_recovery:
  assumes "map_of (allStores s) (hb_store_id hb) = Some prev"
    and "hb_is_startup hb"
  shows "alert_calls (snd (processHeartbeat env hb s)) =
           alert_calls s @
             (if (case lastStartupAlerts s (hb_store_id hb) of
                    None \<Rightarrow> True
                  | Some t \<Rightarrow> s_now env - t > 10 * 60000)
              then [\<lparr> ac_store = hb_store_id hb, ac_kind = Startup, ac_severity = Low,
                      ac_time = s_now env \<rparr>]
              else []) \<and>
         filter (\<lambda>a. ac_kind a = Recovery) (alert_calls (snd (processHeartbeat env hb s))) =
           filter (\<lambda>a. ac_kind a = Recovery) (alert_calls s) \<and>
         lastRecoveryAlerts (snd (processHeartbeat env hb s)) = lastRecoveryAlerts s"
  using assms
  by (simp add: processHeartbeat_def heartbeat_alerts_def Let_def minutes_gt_numeral
      split: option.splits)

theorem startup_flag_never_recovery_witness:
  "alert_calls (snd (processHeartbeat (env_at 900000) hb_A_startup srv_A_offline)) =
     [\<lparr> ac_store = Some ''A'', ac_kind = Startup, ac_severity = Low, ac_time = 900000 \<rparr>] \<and>
   map_option st_status (map_of (allStores srv_A_offline) (Some ''A'')) = Some Offline"
proof -
  have h1: "map_of (allStores srv_A_offline) (hb_store_id hb_A_startup) =
              Some (store_A\<lparr>st_status := Offline\<rparr>)"
    and h2: "hb_is_startup hb_A_startup"
    by (simp_all add: srv_A_offline_def srv_A_def new_server_def hb_A_startup_def)
  have c: "alert_calls srv_A_offline = []" "lastStartupAlerts srv_A_offline = Map.empty"
    "hb_store_id hb_A_startup = Some ''A''"
    by (simp_all add: srv_A_offline_def srv_A_def new_server_def hb_A_startup_def)
  from startup_flag_never_recovery[OF h1 h2, of "env_at 900000"] c h1
  show ?thesis by (simp add: env_at_def)
qed

section \<open>Persistence failure during ingestion\<close>

text \<open>
  C8. When the transaction of \<^verbatim>\<open>saveHeartbeatToDatabase\<close> fails, either ingestion route
  still answers 200 with \<^verbatim>\<open>status: "success"\<close>, the same response as when the
  transaction succeeds; the in-memory state afterwards (registry and cooldown tables)
  is that of the successful run; the store's record is online with the receipt instant
  as last heartbeat; and the tables \<^verbatim>\<open>stores\<close>, \<^verbatim>\<open>heartbeat_history\<close> and
  \<^verbatim>\<open>system_stats\<close> are as before.
\<close>

theorem persistence_failure_still_acks:
  "http_status (fst (route_heartbeat b (env\<lparr>save_throws := True\<rparr>) (Some hb) s)) = 200 \<and>
   body_status (fst (route_heartbeat b (env\<lparr>save_throws := True\<rparr>) (Some hb) s)) = Some ''success'' \<and>
   fst (route_heartbeat b (env\<lparr>save_throws := True\<rparr>) (Some hb) s) =
     fst (route_heartbeat b (env\<lparr>save_throws := False\<rparr>) (Some hb) s) \<and>
   registry (snd (route_heartbeat b (env\<lparr>save_throws := True\<rparr>) (Some hb) s)) =
     registry (snd (route_heartbeat b (env\<lparr>save_throws := False\<rparr>) (Some hb) s)) \<and>
   map_option (\<lambda>st. (st_status st, st_last_heartbeat st))
     (map_of (allStores (snd (route_heartbeat b (env\<lparr>save_throws := True\<rparr>) (Some hb) s)))
        (hb_store_id hb)) = Some (Online, Some (s_now env)) \<and>
   tbl_stores (db (snd (route_heartbeat b (env\<lparr>save_throws := True\<rparr>) (Some hb) s))) =
     tbl_stores (db s) \<and>
   tbl_heartbeat_history (db (snd (route_heartbeat b (env\<lparr>save_throws := True\<rparr>) (Some hb) s))) =
     tbl_heartbeat_history (db s) \<and>
   tbl_system_stats (db (snd (route_heartbeat b (env\<lparr>save_throws := True\<rparr>) (Some hb) s))) =
     tbl_system_stats (db s)"
proof -
  let ?f = "processHeartbeat (env\<lparr>save_throws := True\<rparr>) hb s"
  let ?g = "processHeartbeat (env\<lparr>save_throws := False\<rparr>) hb s"
  have r: "\<And>e. route_heartbeat b e (Some hb) s =
      (\<lparr> http_status = 200, body_status = Some ''success'', body_buffered = b,
          body_total_stores_monitored = Some (fst (processHeartbeat e hb s)) \<rparr>,
       snd (processHeartbeat e hb s))"
    by (simp add: route_heartbeat_def split_beta)
  have "allStores (snd ?f) = allStores (snd ?g)"
    by (simp add: processHeartbeat_allStores cong: option.case_cong)
  then have n: "fst ?f = fst ?g"
    by (simp add: processHeartbeat_fst)
  have st: "map_option (\<lambda>st. (st_status st, st_last_heartbeat st))
     (map_of (allStores (snd ?f)) (hb_store_id hb)) = Some (Online, Some (s_now env))"
    by (simp add: processHeartbeat_allStores update_conv')
  show ?thesis
    unfolding r using n st processHeartbeat_registry[of env hb s]
      processHeartbeat_save_fails_tables[of env hb s]
    by simp
qed

theorem persistence_failure_still_acks_witness:
  "http_status (fst (post_heartbeat ((env_at 900000)\<lparr>save_throws := True\<rparr>)
      (Some hb_A_startup) srv_A_offline)) = 200 \<and>
   map_option (\<lambda>st. (st_status st, st_last_heartbeat st))
     (map_of (allStores (snd (post_heartbeat ((env_at 900000)\<lparr>save_throws := True\<rparr>)
        (Some hb_A_startup) srv_A_offline))) (Some ''A'')) = Some (Online, Some 900000) \<and>
   tbl_heartbeat_history (db (snd (post_heartbeat ((env_at 900000)\<lparr>save_throws := True\<rparr>)
      (Some hb_A_startup) srv_A_offline))) = []"
proof -
  have k: "hb_store_id hb_A_startup = Some ''A''" "s_now (env_at 900000) = 900000"
    "tbl_heartbeat_history (db srv_A_offline) = []"
    by (simp_all add: hb_A_startup_def env_at_def srv_A_offline_def srv_A_def
        new_server_def empty_db_def)
  show ?thesis
    using persistence_failure_still_acks[where b = False and env = "env_at 900000"
        and hb = hb_A_startup and s = srv_A_offline]
    unfolding post_heartbeat_def k by blast
qed

section \<open>Recipients of an alert\<close>

text \<open>
  C9. For every call of \<^verbatim>\<open>sendAlert\<close>: the recipients are the addresses that the
  configuration holds for the store when that list exists and is not empty, and the
  addresses it holds under \<^verbatim>\<open>default\<close> otherwise (none when there is no such entry).
  The insert into \<^verbatim>\<open>alerts\<close> comes first and does not depend on the recipients:
  whenever the statement itself goes through, the alert row is appended. A mail to
  exactly these recipients is scheduled when the row was inserted, mail is enabled and
  the recipient list is not empty; with both lists empty the row is persisted and no
  notification is attempted. An insert that fails (the statement throws, or the store
  has no row in \<^verbatim>\<open>stores\<close> or no id) ends the call with neither row nor mail.
\<close>

theorem recipients_and_persisted_alert:
  "getEmailRecipients s (Some sid) =
     (let defaults = (case storeEmailConfig s ''default'' of None \<Rightarrow> [] | Some ds \<Rightarrow> ds)
      in case storeEmailConfig s sid of
           None \<Rightarrow> defaults
         | Some es \<Rightarrow> if es = [] then defaults else es) \<and>
   getEmailRecipients s None =
     (case storeEmailConfig s ''default'' of None \<Rightarrow> [] | Some ds \<Rightarrow> ds) \<and>
   tbl_alerts (db (sendAlert env (Some sid) kind sev s)) =
     tbl_alerts (db s) @
       (if alert_insert_throws env \<or> sid \<notin> set (map r_store_id (tbl_stores (db s)))
        then []
        else [\<lparr> ar_store_id = sid, ar_alert_type = alertTypeMapping kind, ar_severity = sev,
                ar_timestamp = s_now env \<rparr>]) \<and>
   outbox (sendAlert env (Some sid) kind sev s) =
     outbox s @
       (if alert_insert_throws env \<or> sid \<notin> set (map r_store_id (tbl_stores (db s)))
        then []
        else if emailEnabled s \<and> getEmailRecipients s (Some sid) \<noteq> []
        then [\<lparr> m_to = getEmailRecipients s (Some sid), m_store = Some sid, m_kind = kind \<rparr>]
        else []) \<and>
   tbl_alerts (db (sendAlert env None kind sev s)) = tbl_alerts (db s) \<and>
   outbox (sendAlert env None kind sev s) = outbox s"
proof -
  have r1: "getEmailRecipients s (Some sid) =
     (let defaults = (case storeEmailConfig s ''default'' of None \<Rightarrow> [] | Some ds \<Rightarrow> ds)
      in case storeEmailConfig s sid of
           None \<Rightarrow> defaults
         | Some es \<Rightarrow> if es = [] then defaults else es)"
    by (simp add: getEmailRecipients_def config_get_def Let_def split: option.splits)
  have r2: "getEmailRecipients s None =
     (case storeEmailConfig s ''default'' of None \<Rightarrow> [] | Some ds \<Rightarrow> ds)"
    by (simp add: getEmailRecipients_def config_get_def Let_def)
  have a: "tbl_alerts (db (sendAlert env (Some sid) kind sev s)) =
     tbl_alerts (db s) @
       (if alert_insert_throws env \<or> sid \<notin> set (map r_store_id (tbl_stores (db s)))
        then []
        else [\<lparr> ar_store_id = sid, ar_alert_type = alertTypeMapping kind, ar_severity = sev,
                ar_timestamp = s_now env \<rparr>])"
    by (simp add: sendAlert_def Let_def)
  have o: "outbox (sendAlert env (Some sid) kind sev s) =
     outbox s @
       (if alert_insert_throws env \<or> sid \<notin> set (map r_store_id (tbl_stores (db s)))
        then []
        else if emailEnabled s \<and> getEmailRecipients s (Some sid) \<noteq> []
        then [\<lparr> m_to = getEmailRecipients s (Some sid), m_store = Some sid, m_kind = kind \<rparr>]
        else [])"
    by (simp add: sendAlert_def Let_def)
  have n: "tbl_alerts (db (sendAlert env None kind sev s)) = tbl_alerts (db s)"
    "outbox (sendAlert env None kind sev s) = outbox s"
    by (simp_all add: sendAlert_def Let_def)
  from r1 r2 a o n show ?thesis by blast
qed

theorem recipients_and_persisted_alert_witness:
  "getEmailRecipients srv_mail (Some ''A'') = [''a@example.org''] \<and>
   getEmailRecipients srv_mail (Some ''B'') = [''ops@example.org''] \<and>
   getEmailRecipients srv_mail (Some ''C'') = [''ops@example.org''] \<and>
   outbox (sendAlert (env_at 360000) (Some ''A'') OfflineAlert Critical srv_mail) =
     [\<lparr> m_to = [''a@example.org''], m_store = Some ''A'', m_kind = OfflineAlert \<rparr>] \<and>
   outbox (sendAlert (env_at 360000) (Some ''C'') Recovery Medium srv_mail) =
     [\<lparr> m_to = [''ops@example.org''], m_store = Some ''C'', m_kind = Recovery \<rparr>] \<and>
   tbl_alerts (db (sendAlert (env_at 360000) (Some ''A'') OfflineAlert Critical
                     (srv_A\<lparr>emailEnabled := True\<rparr>))) =
     [\<lparr> ar_store_id = ''A'', ar_alert_type = DbOffline, ar_severity = Critical,
        ar_timestamp = 360000 \<rparr>] \<and>
   getEmailRecipients (srv_A\<lparr>emailEnabled := True\<rparr>) (Some ''A'') = [] \<and>
   outbox (sendAlert (env_at 360000) (Some ''A'') OfflineAlert Critical
             (srv_A\<lparr>emailEnabled := True\<rparr>)) = []"
proof -
  let ?e = "env_at 360000"
  let ?s = "srv_A\<lparr>emailEnabled := True\<rparr>"
  have e: "\<not> alert_insert_throws ?e" "s_now ?e = 360000"
    by (simp_all add: env_at_def)
  have k: "storeEmailConfig srv_A ''A'' = None" "storeEmailConfig srv_A ''default'' = None"
    "tbl_alerts (db srv_A) = []" "outbox srv_A = []"
    "set (map r_store_id (tbl_stores (db srv_A))) = {''A''}"
    by (simp_all add: srv_A_def row_A_def new_server_def empty_db_def)
  note t = recipients_and_persisted_alert[where env = ?e]
  from t[where s = srv_mail and sid = "''A''" and kind = OfflineAlert and sev = Critical]
       t[where s = srv_mail and sid = "''B''" and kind = OfflineAlert and sev = Critical]
       t[where s = srv_mail and sid = "''C''" and kind = Recovery and sev = Medium]
       t[where s = ?s and sid = "''A''" and kind = OfflineAlert and sev = Critical]
  show ?thesis
    by (simp add: srv_mail_facts e k alertTypeMapping_def Let_def del: set_map)
qed

section \<open>The buffer drain\<close>




section \<open>Bad input\<close>

text \<open>
  C4, as the specification states it, fails on the code. A heartbeat without
  \<^verbatim>\<open>store_id\<close> is processed like any other and both ingestion routes acknowledge it
  with status 200, which is not a 4xx.
\<close>

theorem missing_store_id_acknowledged_counterexample:
  "hb_store_id hb_no_id = None \<and>
   http_status (fst (post_heartbeat (env_at 900000) (Some hb_no_id) srv_A)) = 200 \<and>
   http_status (fst (post_heartbeat_buffered (env_at 900000) (Some hb_no_id) srv_A)) = 200 \<and>
   \<not> (400 \<le> (200::nat) \<and> (200::nat) < 500)"
  by (simp add: post_heartbeat_def post_heartbeat_buffered_def route_heartbeat_def split_beta hb_no_id_def)

text \<open>
  C4, amended. A request whose body is not parseable JSON is answered 400 (by the JSON
  middleware, before any route runs) and changes nothing. A request whose body parsed
  is answered 200 by either ingestion route, also when the heartbeat lacks
  \<^verbatim>\<open>store_id\<close>: the heartbeat is processed like any other and a record is written
  under its (missing) id; only a body that is no object ends in 500. On the client, a
  buffered entry whose data does not parse or lacks \<^verbatim>\<open>store_id\<close> is skipped by the
  drain: the drain behaves as on the batch without such entries, so it goes on with the
  entries behind them; the entry itself is not posted and stays in the buffer (unsent,
  in the durable mode), where later drains find it again. The last two statements are
  for ids that are distinct, and in the durable mode for local statements that succeed.
\<close>

theorem ingestion_status_and_skipped_entries:
  "fst (ingest b env BadJson s) =
     \<lparr> http_status = 400, body_status = None, body_buffered = False,
       body_total_stores_monitored = None \<rparr> \<and>
   snd (ingest b env BadJson s) = s \<and>
   http_status (fst (ingest b env (JsonBody None) s)) = 500 \<and>
   http_status (fst (ingest b env (JsonBody (Some hb)) s)) = 200 \<and>
   map_option (\<lambda>st. (st_status st, st_last_heartbeat st))
     (map_of (allStores (snd (ingest b env (JsonBody (Some hb)) s))) (hb_store_id hb)) =
     Some (Online, Some (s_now env)) \<and>
   sendBufferedHeartbeats cenv c =
     (if localDb c \<noteq> None \<and> select_throws cenv then (c, [])
      else drain_loop cenv (filter (\<lambda>r. decode r \<noteq> None) (peek_batch c)) (c, [])) \<and>
   (localDb c = Some tbl \<and> distinct (map b_id tbl) \<and> \<not> select_throws cenv \<and>
    update_throws cenv = (\<lambda>_. None) \<longrightarrow>
      snd (sendBufferedHeartbeats cenv c) =
        map b_id (filter (\<lambda>r. decode r \<noteq> None) (reached cenv (peek_batch c))) \<and>
      (r \<in> set (peek_batch c) \<and> decode r = None \<longrightarrow>
         b_id r \<notin> set (snd (sendBufferedHeartbeats cenv c)) \<and>
         (\<exists>tbl'. localDb (fst (sendBufferedHeartbeats cenv c)) = Some tbl' \<and>
                 r \<in> set tbl' \<and> \<not> b_sent r))) \<and>
   (localDb c = None \<and> heartbeatBuffer c = Some buf \<and> distinct (map b_id buf) \<longrightarrow>
      snd (sendBufferedHeartbeats cenv c) =
        map b_id (filter (\<lambda>r. decode r \<noteq> None) (reached cenv (peek_batch c))) \<and>
      (r \<in> set (peek_batch c) \<and> decode r = None \<longrightarrow>
         b_id r \<notin> set (snd (sendBufferedHeartbeats cenv c)) \<and>
         (\<exists>buf'. heartbeatBuffer (fst (sendBufferedHeartbeats cenv c)) = Some buf' \<and>
                 r \<in> set buf')))"
proof -
  let ?batch = "peek_batch c"
  let ?S = "delivered_ids cenv ?batch"
  let ?posted = "map b_id (filter (\<lambda>r. decode r \<noteq> None) (reached cenv ?batch))"
  have bad: "fst (ingest b env BadJson s) =
     \<lparr> http_status = 400, body_status = None, body_buffered = False,
       body_total_stores_monitored = None \<rparr>" "snd (ingest b env BadJson s) = s"
    by (simp_all add: ingest_def)
  have none: "http_status (fst (ingest b env (JsonBody None) s)) = 500"
    by (simp add: ingest_def route_heartbeat_def)
  have ok: "http_status (fst (ingest b env (JsonBody (Some hb)) s)) = 200"
    by (simp add: ingest_def route_heartbeat_def split_beta)
  have rec: "map_option (\<lambda>st. (st_status st, st_last_heartbeat st))
     (map_of (allStores (snd (ingest b env (JsonBody (Some hb)) s))) (hb_store_id hb)) =
     Some (Online, Some (s_now env))"
    by (simp add: ingest_def route_heartbeat_def split_beta processHeartbeat_allStores
        update_conv')
  have skip: "sendBufferedHeartbeats cenv c =
     (if localDb c \<noteq> None \<and> select_throws cenv then (c, [])
      else drain_loop cenv (filter (\<lambda>r. decode r \<noteq> None) (peek_batch c)) (c, []))"
    using drain_loop_skips_invalid[of cenv ?batch "(c, [])"]
    by (simp add: sendBufferedHeartbeats_def)
  have uniq: "b_id r \<notin> set ?posted \<and> b_id r \<notin> ?S"
    if inj: "inj_on b_id (set ?batch)" and r: "r \<in> set ?batch" "decode r = None"
  proof -
    have u: "q = r" if "q \<in> set ?batch" "b_id q = b_id r" for q
      using that r(1) inj by (auto dest: inj_onD)
    have "b_id r \<notin> set ?posted"
    proof
      assume "b_id r \<in> set ?posted"
      then obtain q where q: "q \<in> set (reached cenv ?batch)" "decode q \<noteq> None"
          "b_id q = b_id r"
        by auto
      with reached_subset[of cenv ?batch] have "q = r" by (auto intro: u)
      with q(2) r(2) show False by simp
    qed
    moreover have "b_id r \<notin> ?S"
    proof
      assume "b_id r \<in> ?S"
      with delivered_ids_subset[of cenv ?batch]
      obtain q where q: "q \<in> set ?batch" "decode q \<noteq> None" "b_id q = b_id r"
        by auto
      then have "q = r" by (auto intro: u)
      with q(2) r(2) show False by simp
    qed
    ultimately show ?thesis by blast
  qed
  have dur: "snd (sendBufferedHeartbeats cenv c) = ?posted \<and>
      (r \<in> set ?batch \<and> decode r = None \<longrightarrow>
         b_id r \<notin> set (snd (sendBufferedHeartbeats cenv c)) \<and>
         (\<exists>tbl'. localDb (fst (sendBufferedHeartbeats cenv c)) = Some tbl' \<and>
                 r \<in> set tbl' \<and> \<not> b_sent r))"
    if h: "localDb c = Some tbl" "distinct (map b_id tbl)" "\<not> select_throws cenv"
      "update_throws cenv = (\<lambda>_. None)"
  proof -
    let ?tbl' = "map (\<lambda>r. if b_id r \<in> ?S then r\<lparr>b_sent := True\<rparr> else r) tbl"
    have sub: "set ?batch \<subseteq> {r \<in> set tbl. \<not> b_sent r}"
      using peek_batch_db(3)[OF h(1)] .
    have "inj_on b_id (set tbl)"
      using h(2) by (simp add: distinct_map)
    with sub have inj: "inj_on b_id (set ?batch)"
      by (auto intro: inj_on_subset)
    have sb: "sendBufferedHeartbeats cenv c = (c\<lparr>localDb := Some ?tbl'\<rparr>, ?posted)"
      using h(3) drain_loop_db[OF h(4) h(1), of ?batch "[]"]
      by (simp add: sendBufferedHeartbeats_def)
    have "b_id r \<notin> set ?posted \<and> r \<in> set ?tbl' \<and> \<not> b_sent r"
      if r: "r \<in> set ?batch" "decode r = None"
    proof -
      from uniq[OF inj r] have n: "b_id r \<notin> set ?posted" "b_id r \<notin> ?S" by simp_all
      from sub r(1) have rt: "r \<in> set tbl" "\<not> b_sent r" by auto
      from rt(1) n(2) have "r \<in> set ?tbl'"
        by (auto simp: image_iff intro: bexI[of _ r])
      with n(1) rt(2) show ?thesis by simp
    qed
    then show ?thesis by (auto simp: sb)
  qed
  have mem: "snd (sendBufferedHeartbeats cenv c) = ?posted \<and>
      (r \<in> set ?batch \<and> decode r = None \<longrightarrow>
         b_id r \<notin> set (snd (sendBufferedHeartbeats cenv c)) \<and>
         (\<exists>buf'. heartbeatBuffer (fst (sendBufferedHeartbeats cenv c)) = Some buf' \<and>
                 r \<in> set buf'))"
    if h: "localDb c = None" "heartbeatBuffer c = Some buf" "distinct (map b_id buf)"
  proof -
    let ?buf' = "filter (\<lambda>r. b_id r \<notin> ?S) buf"
    have pb: "?batch = take 10 buf"
      using h(1,2) by (simp add: peek_batch_def)
    then have sub: "set ?batch \<subseteq> set buf"
      using set_take_subset[of 10 buf] by simp
    have "inj_on b_id (set buf)"
      using h(3) by (simp add: distinct_map)
    with sub have inj: "inj_on b_id (set ?batch)"
      by (auto intro: inj_on_subset)
    have sb: "sendBufferedHeartbeats cenv c = (c\<lparr>heartbeatBuffer := Some ?buf'\<rparr>, ?posted)"
      using h(1) drain_loop_mem[OF h, of cenv ?batch "[]"]
      by (simp add: sendBufferedHeartbeats_def)
    have "b_id r \<notin> set ?posted \<and> r \<in> set ?buf'"
      if r: "r \<in> set ?batch" "decode r = None"
    proof -
      from uniq[OF inj r] have n: "b_id r \<notin> set ?posted" "b_id r \<notin> ?S" by simp_all
      from sub r(1) n(2) have "r \<in> set ?buf'" by auto
      with n(1) show ?thesis by simp
    qed
    then show ?thesis by (auto simp: sb)
  qed
  from bad none ok rec skip dur mem show ?thesis by blast
qed

theorem ingestion_status_and_skipped_entries_witness:
  "http_status (fst (ingest False (env_at 900000) BadJson srv_A)) = 400 \<and>
   http_status (fst (ingest True (env_at 900000) (JsonBody (Some hb_no_id)) srv_A)) = 200 \<and>
   snd (sendBufferedHeartbeats drain_env client_db) = [1, 3, 4, 5] \<and>
   (\<exists>tbl'. localDb (fst (sendBufferedHeartbeats drain_env client_db)) = Some tbl' \<and>
           buf_row 2 Unparseable 0 \<in> set tbl' \<and> \<not> b_sent (buf_row 2 Unparseable 0)) \<and>
   snd (sendBufferedHeartbeats (gc_env 1000) client_mem3) = [1, 3] \<and>
   (\<exists>buf'. heartbeatBuffer (fst (sendBufferedHeartbeats (gc_env 1000) client_mem3)) = Some buf' \<and>
           buf_row 2 (Payload hb_no_id) 0 \<in> set buf')"
proof -
  let ?mem = "[buf_row 1 (Payload hb_A) 0, buf_row 2 (Payload hb_no_id) 0,
               buf_row 3 (Payload hb_A) 0]"
  have d: "localDb client_db = Some six_rows \<and> distinct (map b_id six_rows) \<and>
      \<not> select_throws drain_env \<and> update_throws drain_env = (\<lambda>_. None)"
    by (simp add: client_db_def new_client_def drain_env_def six_rows_def)
  have dr: "buf_row 2 Unparseable 0 \<in> set (peek_batch client_db) \<and>
      decode (buf_row 2 Unparseable 0) = None"
    by (simp add: peek_six six_rows_def)
  have m: "localDb client_mem3 = None \<and> heartbeatBuffer client_mem3 = Some ?mem \<and>
      distinct (map b_id ?mem)"
    by (simp add: mem3_rows)
  have mr: "buf_row 2 (Payload hb_no_id) 0 \<in> set (peek_batch client_mem3) \<and>
      decode (buf_row 2 (Payload hb_no_id) 0) = None"
    by (simp add: mem3_rows)
  have p: "map b_id (filter (\<lambda>r. decode r \<noteq> None) (reached drain_env (peek_batch client_db))) =
             [1, 3, 4, 5]"
    by (simp only: peek_six reached_six) (simp add: six_rows_def)
  have q: "map b_id (filter (\<lambda>r. decode r \<noteq> None)
             (reached (gc_env 1000) (peek_batch client_mem3))) = [1, 3]"
    by (simp add: mem3_rows)
  note t1 = ingestion_status_and_skipped_entries[where b = False and env = "env_at 900000" and s = srv_A and hb = hb_no_id
      and cenv = drain_env and c = client_db and tbl = six_rows
      and r = "buf_row 2 Unparseable 0" and buf = "[]"]
  note t2 = ingestion_status_and_skipped_entries[where b = True and env = "env_at 900000" and s = srv_A and hb = hb_no_id
      and cenv = "gc_env 1000" and c = client_mem3 and tbl = "[]"
      and r = "buf_row 2 (Payload hb_no_id) 0" and buf = ?mem]
  from t1 have a1: "http_status (fst (ingest False (env_at 900000) BadJson srv_A)) = 400"
    by simp
  from t2 have a2:
    "http_status (fst (ingest True (env_at 900000) (JsonBody (Some hb_no_id)) srv_A)) = 200"
    by blast
  from t1 d dr have a3: "snd (sendBufferedHeartbeats drain_env client_db) =
        map b_id (filter (\<lambda>r. decode r \<noteq> None) (reached drain_env (peek_batch client_db)))"
    "\<exists>tbl'. localDb (fst (sendBufferedHeartbeats drain_env client_db)) = Some tbl' \<and>
           buf_row 2 Unparseable 0 \<in> set tbl' \<and> \<not> b_sent (buf_row 2 Unparseable 0)"
    by blast+
  from t2 m mr have a4: "snd (sendBufferedHeartbeats (gc_env 1000) client_mem3) =
        map b_id (filter (\<lambda>r. decode r \<noteq> None)
          (reached (gc_env 1000) (peek_batch client_mem3)))"
    "\<exists>buf'. heartbeatBuffer (fst (sendBufferedHeartbeats (gc_env 1000) client_mem3)) = Some buf' \<and>
           buf_row 2 (Payload hb_no_id) 0 \<in> set buf'"
    by blast+
  from a1 a2 a3 a4 show ?thesis
    by (simp only: p q) 
qed

section \<open>Cleanup of the buffer\<close>

text \<open>
  C10, as the specification states it, fails on the code. In the memory mode an entry
  buffered at instant 0 is deleted by a cleanup two hours later, well inside the
  retention window of 24 hours.
\<close>

theorem memory_gc_drops_young_entry_counterexample:
  "\<not> (7200000 - 0 > (24 * 60 * 60 * 1000 :: int)) \<and>
   heartbeatBuffer client_mem = Some [buf_row 0 (Payload hb_A) 0] \<and>
   heartbeatBuffer (clearOldBufferedHeartbeats (gc_env 7200000) client_mem) = Some []"
  by (simp add: client_mem_def new_client_def clearOldBufferedHeartbeats_def gc_env_def
      buf_row_def storeHeartbeatLocally_def attempt_env_def mysqlTimestamp_def)

text \<open>
  C10, amended. In the durable mode the cleanup keeps exactly the rows created at most
  24 hours ago and deletes the older ones. In the memory mode it keeps exactly the items
  whose timestamp, as read back from the item, is less than one hour old; so there too
  nothing older than 24 hours survives, but neither does anything older than one hour.
\<close>

theorem buffer_gc_retention:
  "(localDb c = Some tbl \<and> \<not> delete_throws env \<longrightarrow>
      localDb (clearOldBufferedHeartbeats env c) =
        Some (filter (\<lambda>r. now env - b_created_at r \<le> 24 * 60 * 60 * 1000) tbl)) \<and>
   (localDb c = None \<and> heartbeatBuffer c = Some buf \<longrightarrow>
      (\<exists>buf'. heartbeatBuffer (clearOldBufferedHeartbeats env c) = Some buf' \<and>
         buf' = filter (\<lambda>item. now env - b_timestamp item < 60 * 60 * 1000) buf \<and>
         (\<forall>item\<in>set buf'. now env - b_timestamp item \<le> 24 * 60 * 60 * 1000)))"
proof -
  have f1: "\<And>r. (\<not> b_created_at r < now env - 86400000) =
                 (now env - b_created_at r \<le> 86400000)"
    by arith
  have f2: "\<And>item. (now env - 3600000 < b_timestamp item) =
                    (now env - b_timestamp item < 3600000)"
    by arith
  show ?thesis
    by (auto simp: clearOldBufferedHeartbeats_def f1 f2)
qed

theorem buffer_gc_retention_witness:
  "heartbeatBuffer (clearOldBufferedHeartbeats (gc_env 3600000) client_mem) = Some [] \<and>
   heartbeatBuffer (clearOldBufferedHeartbeats (gc_env 3599999) client_mem) =
     Some [buf_row 0 (Payload hb_A) 0] \<and>
   localDb (clearOldBufferedHeartbeats (gc_env 86400000) client_db) = Some six_rows \<and>
   localDb (clearOldBufferedHeartbeats (gc_env 86400001) client_db) = Some []"
proof -
  have m: "localDb client_mem = None \<and>
           heartbeatBuffer client_mem = Some [buf_row 0 (Payload hb_A) 0]"
    by (simp add: client_mem_def new_client_def storeHeartbeatLocally_def attempt_env_def
        mysqlTimestamp_def buf_row_def)
  have d: "\<And>t. localDb client_db = Some six_rows \<and> \<not> delete_throws (gc_env t)"
    by (simp add: client_db_def new_client_def gc_env_def)
  have n: "\<And>t. now (gc_env t) = t" by (simp add: gc_env_def)
  from buffer_gc_retention[of client_mem six_rows "gc_env 3600000" "[buf_row 0 (Payload hb_A) 0]"]
       buffer_gc_retention[of client_mem six_rows "gc_env 3599999" "[buf_row 0 (Payload hb_A) 0]"]
       buffer_gc_retention[of client_db six_rows "gc_env 86400000" "[]"]
       buffer_gc_retention[of client_db six_rows "gc_env 86400001" "[]"] m d
  show ?thesis
    by (simp add: n six_rows_def buf_row_def)
qed

end
